theory Spec2Isabelle
  imports Main
begin

section \<open>Tribeo backend: documents, store and HTTP responses\<close>

text \<open>
  The backend is a set of Express handlers over two MongoDB collections. A handler is
  modelled as a function from the store (and the request's inputs) to what it answers and
  the store it leaves. Identifiers are ObjectIds, 12-byte values modelled as natural
  numbers (below \<open>16 ^ 24\<close>). An id travels as its string of 24 lower-case hexadecimal
  digits (\<open>toHexString\<close>); where a handler compares or casts a string that the client
  chose (\<open>sendFriendRequest\<close>), the string is modelled, elsewhere an id stands for its
  canonical string. Dates are milliseconds since the epoch. Strings are lists of 8-bit characters
  (the Latin-1 part of a JavaScript string). The fields \<open>createdAt\<close>, \<open>updatedAt\<close> and
  \<open>__v\<close> that Mongoose maintains are left out: no handler reads them.
\<close>

type_synonym objectId = nat
type_synonym date = nat

text \<open>models/User.js: the schema's paths. \<open>user_id\<close> is \<open>_id\<close>.\<close>

record user =
  user_id :: objectId
  fullName :: string
  email :: string
  password :: string
  bio :: string
  profilePic :: string
  nativeLanguage :: string
  learningLanguage :: string
  location :: string
  isOnboarded :: bool
  friends :: "objectId list"
  passwordResetToken :: "string option"
  passwordResetExpires :: "date option"

text \<open>models/FriendRequest.js: \<open>status\<close> is the enum \<open>["pending", "accepted"]\<close>.\<close>

datatype request_status = Pending | Accepted

record friendRequest =
  request_id :: objectId
  sender :: objectId
  recipient :: objectId
  status :: request_status

text \<open>The two collections, each in its natural (insertion) order.\<close>

record db =
  users :: "user list"
  friendRequests :: "friendRequest list"

text \<open>What \<open>res.json\<close> serialises, and a response: status, body and the cookie it sets.\<close>

datatype json =
    JNull
  | JBool bool
  | JNum nat
  | JStr string
  | JArr "json list"
  | JObj "(string \<times> json) list"

record cookie =
  cookie_name :: string
  cookie_value :: string
  maxAge :: nat
  httpOnly :: bool
  sameSite :: string
  secure :: bool

datatype response = Response (code: nat) (body: json) (cookie_set: "cookie option")

text \<open>
  What a handler did when its listing does not end in a response: it answered
  (\<open>Replied\<close>), an awaited call threw inside its \<open>try\<close> (\<open>Threw\<close>: control passes to a
  \<open>catch\<close> block the listing does not show), or it ran to the end of the listed
  statements (\<open>Finished\<close>).
\<close>

datatype outcome = Replied response | Threw | Finished

definition message :: "string \<Rightarrow> json" where
  "message m = JObj [(''message'', JStr m)]"

definition field :: "json \<Rightarrow> string \<Rightarrow> json option" where
  "field j k = (case j of JObj kvs \<Rightarrow> map_of kvs k | _ \<Rightarrow> None)"

definition opt_field :: "string \<Rightarrow> ('a \<Rightarrow> json) \<Rightarrow> 'a option \<Rightarrow> (string \<times> json) list" where
  "opt_field k f v = (case v of None \<Rightarrow> [] | Some x \<Rightarrow> [(k, f x)])"

text \<open>A document as \<open>res.json\<close> sends it: every path that is set, \<open>password\<close> included.\<close>

definition user_json :: "user \<Rightarrow> (string \<times> json) list" where
  "user_json u =
     [(''_id'', JNum (user_id u)),
      (''fullName'', JStr (fullName u)),
      (''email'', JStr (email u)),
      (''password'', JStr (password u)),
      (''bio'', JStr (bio u)),
      (''profilePic'', JStr (profilePic u)),
      (''nativeLanguage'', JStr (nativeLanguage u)),
      (''learningLanguage'', JStr (learningLanguage u)),
      (''location'', JStr (location u)),
      (''isOnboarded'', JBool (isOnboarded u)),
      (''friends'', JArr (map JNum (friends u)))]
     @ opt_field ''passwordResetToken'' JStr (passwordResetToken u)
     @ opt_field ''passwordResetExpires'' JNum (passwordResetExpires u)"

definition status_json :: "request_status \<Rightarrow> json" where
  "status_json s = (case s of Pending \<Rightarrow> JStr ''pending'' | Accepted \<Rightarrow> JStr ''accepted'')"

definition friendRequest_json :: "friendRequest \<Rightarrow> json" where
  "friendRequest_json r =
     JObj [(''_id'', JNum (request_id r)),
           (''sender'', JNum (sender r)),
           (''recipient'', JNum (recipient r)),
           (''status'', status_json (status r))]"

subsection \<open>Store operations\<close>

text \<open>\<open>Model.findById\<close>: the first document with that \<open>_id\<close>, or null.\<close>

definition findById :: "user list \<Rightarrow> objectId \<Rightarrow> user option" where
  "findById us i = find (\<lambda>u. user_id u = i) us"

definition findRequestById :: "friendRequest list \<Rightarrow> objectId \<Rightarrow> friendRequest option" where
  "findRequestById rs i = find (\<lambda>r. request_id r = i) rs"

text \<open>
  \<open>User.findByIdAndUpdate(id, update)\<close>: applies the update to the first document with
  that \<open>_id\<close>; with no such document nothing is written.
\<close>

fun findByIdAndUpdate :: "(user \<Rightarrow> user) \<Rightarrow> objectId \<Rightarrow> user list \<Rightarrow> user list" where
  "findByIdAndUpdate f i [] = []"
| "findByIdAndUpdate f i (u # us) =
     (if user_id u = i then f u # us else u # findByIdAndUpdate f i us)"

text \<open>\<open>doc.save()\<close> of a loaded friend request: writes it over the stored one.\<close>

fun saveRequest :: "friendRequest \<Rightarrow> friendRequest list \<Rightarrow> friendRequest list" where
  "saveRequest d [] = []"
| "saveRequest d (r # rs) =
     (if request_id r = request_id d then d # rs else r # saveRequest d rs)"

text \<open>\<open>$addToSet\<close>: appends the value unless the array already holds it.\<close>

definition addToSet :: "'a \<Rightarrow> 'a list \<Rightarrow> 'a list" where
  "addToSet x xs = (if x \<in> set xs then xs else xs @ [x])"

text \<open>A new ObjectId: one that no document of the collection carries.\<close>

definition newObjectId :: "objectId list \<Rightarrow> objectId" where
  "newObjectId ids = Suc (fold max ids 0)"

section \<open>Friend requests (controllers/user.controller.js)\<close>

text \<open>
  An ObjectId as a string. \<open>toHexString\<close> is what \<open>doc.id\<close> and \<open>ObjectId.toString()\<close>
  give: 24 hexadecimal digits, lower case, most significant first. \<open>castObjectId\<close> is the
  cast Mongoose applies to a string where the schema has an ObjectId: a string of exactly
  24 hexadecimal digits, of either case, is the id with these digits; for any other
  string the cast throws (\<open>None\<close>).
\<close>

definition hexDigit :: "nat \<Rightarrow> char" where
  "hexDigit d = (if d < 10 then char_of (48 + d) else char_of (87 + d))"

definition toHexString :: "objectId \<Rightarrow> string" where
  "toHexString i = map (\<lambda>k. hexDigit (i div 16 ^ k mod 16)) (rev [0..<24])"

definition hexValue :: "char \<Rightarrow> nat option" where
  "hexValue c =
     (let n = of_char c :: nat
      in if 48 \<le> n \<and> n \<le> 57 then Some (n - 48)
         else if 97 \<le> n \<and> n \<le> 102 then Some (n - 87)
         else if 65 \<le> n \<and> n \<le> 70 then Some (n - 55)
         else None)"

fun parseHex :: "nat \<Rightarrow> string \<Rightarrow> nat option" where
  "parseHex acc [] = Some acc"
| "parseHex acc (c # cs) =
     (case hexValue c of None \<Rightarrow> None | Some d \<Rightarrow> parseHex (16 * acc + d) cs)"

definition castObjectId :: "string \<Rightarrow> objectId option" where
  "castObjectId s = (if length s = 24 then parseHex 0 s else None)"

text \<open>
  \<open>sendFriendRequest\<close>: \<open>myId\<close> is \<open>req.user.id\<close>, a string, and \<open>recipientId\<close> the route
  parameter, a string the client chose. The guards come in the source's order:
  \<^item> \<open>myId === recipientId\<close> compares the two strings;
  \<^item> \<open>User.findById(recipientId)\<close> casts the route parameter, and throws when the cast does;
  \<^item> \<open>recipient.friends.includes(myId)\<close> compares \<open>myId\<close> with the string of each friend;
  \<^item> the query for an existing request and \<open>FriendRequest.create\<close> cast both strings.
  A throw passes control to a \<open>catch\<close> block the listing does not show. Only the last
  branch writes.
\<close>

definition existingRequest :: "friendRequest list \<Rightarrow> objectId \<Rightarrow> objectId \<Rightarrow> friendRequest option" where
  "existingRequest rs myId recipientId =
     find (\<lambda>r. (sender r = myId \<and> recipient r = recipientId) \<or>
                (sender r = recipientId \<and> recipient r = myId)) rs"

definition sendFriendRequest :: "db \<Rightarrow> string \<Rightarrow> string \<Rightarrow> outcome \<times> db" where
  "sendFriendRequest st myId recipientId =
     (if myId = recipientId then
        (Replied (Response 400 (message ''You can't send friend request to yourself'') None), st)
      else
        (case castObjectId recipientId of
           None \<Rightarrow> (Threw, st)
         | Some rid \<Rightarrow>
             (case findById (users st) rid of
                None \<Rightarrow> (Replied (Response 404 (message ''Recipient not found'') None), st)
              | Some rcp \<Rightarrow>
                  if myId \<in> set (map toHexString (friends rcp)) then
                    (Replied (Response 400 (message ''You are already friends with this user'') None), st)
                  else
                    (case castObjectId myId of
                       None \<Rightarrow> (Threw, st)
                     | Some sid \<Rightarrow>
                         (case existingRequest (friendRequests st) sid rid of
                            Some r \<Rightarrow>
                              (Replied (Response 400
                                 (message ''A friend request already exists between you and this user'')
                                 None), st)
                          | None \<Rightarrow>
                              (let fr = \<lparr> request_id = newObjectId (map request_id (friendRequests st)),
                                          sender = sid, recipient = rid, status = Pending \<rparr>
                               in (Replied (Response 201 (friendRequest_json fr) None),
                                   st\<lparr> friendRequests := friendRequests st @ [fr] \<rparr>)))))))"

text \<open>
  \<open>acceptFriendRequest\<close>: \<open>userId\<close> is \<open>req.user.id\<close>. The listing ends after the second
  \<open>findByIdAndUpdate\<close>, so the successful run is \<open>Finished\<close>.
\<close>

definition addFriend :: "objectId \<Rightarrow> user \<Rightarrow> user" where
  "addFriend f u = u\<lparr> friends := addToSet f (friends u) \<rparr>"

definition acceptFriendRequest :: "db \<Rightarrow> objectId \<Rightarrow> objectId \<Rightarrow> outcome \<times> db" where
  "acceptFriendRequest st requestId userId =
     (case findRequestById (friendRequests st) requestId of
        None \<Rightarrow> (Replied (Response 404 (message ''Friend request not found'') None), st)
      | Some fr \<Rightarrow>
          if recipient fr \<noteq> userId then
            (Replied (Response 403 (message ''You are not authorized to accept this request'') None), st)
          else
            (let fr' = fr\<lparr> status := Accepted \<rparr>;
                 rs' = saveRequest fr' (friendRequests st);
                 us1 = findByIdAndUpdate (addFriend (recipient fr')) (sender fr') (users st);
                 us2 = findByIdAndUpdate (addFriend (sender fr')) (recipient fr') us1
             in (Finished, \<lparr> users = us2, friendRequests = rs' \<rparr>)))"

section \<open>Strings and the e-mail pattern\<close>

text \<open>
  \<open>\s\<close> of a JavaScript regular expression, which is also what \<open>trim\<close> strips: tab, line
  feed, vertical tab, form feed, carriage return, space and no-break space (the members
  below U+0100).
\<close>

definition isWhiteSpace :: "char \<Rightarrow> bool" where
  "isWhiteSpace c = (of_char c \<in> {9, 10, 11, 12, 13, 32, 160 :: nat})"

text \<open>\<open>toLowerCase\<close>: A to Z, and the Latin-1 capitals U+00C0 to U+00DE but the sign U+00D7.\<close>

definition toLowerCaseChar :: "char \<Rightarrow> char" where
  "toLowerCaseChar c =
     (let n = of_char c :: nat
      in if (65 \<le> n \<and> n \<le> 90) \<or> (192 \<le> n \<and> n \<le> 222 \<and> n \<noteq> 215)
         then char_of (n + 32) else c)"

definition toLowerCase :: "string \<Rightarrow> string" where
  "toLowerCase s = map toLowerCaseChar s"

definition trim :: "string \<Rightarrow> string" where
  "trim s = rev (dropWhile isWhiteSpace (rev (dropWhile isWhiteSpace s)))"

text \<open>
  A pattern anchored at both ends, built from single characters and \<open>+\<close> repetitions of a
  character class: enough for \<open>/^[^\s@]+@[^\s@]+\.[^\s@]+$/\<close>.
\<close>

datatype charClass = NotSpaceNorAt | Literal char

datatype atom = One charClass | Plus charClass

fun inClass :: "charClass \<Rightarrow> char \<Rightarrow> bool" where
  "inClass NotSpaceNorAt c = (\<not> isWhiteSpace c \<and> c \<noteq> CHR ''@'')"
| "inClass (Literal d) c = (c = d)"

fun regexTest :: "atom list \<Rightarrow> string \<Rightarrow> bool" where
  "regexTest [] s = (s = [])"
| "regexTest (a # r) [] = False"
| "regexTest (One k # r) (c # cs) = (inClass k c \<and> regexTest r cs)"
| "regexTest (Plus k # r) (c # cs) =
     (inClass k c \<and> (regexTest (Plus k # r) cs \<or> regexTest r cs))"

definition emailRegex :: "atom list" where
  "emailRegex =
     [Plus NotSpaceNorAt, One (Literal (CHR ''@'')), Plus NotSpaceNorAt,
      One (Literal (CHR ''.'')), Plus NotSpaceNorAt]"

text \<open>A number in a template literal: its decimal digits.\<close>

fun decimal :: "nat \<Rightarrow> string" where
  "decimal n =
     (if n < 10 then [char_of (48 + n)] else decimal (n div 10) @ [char_of (48 + n mod 10)])"

declare decimal.simps [simp del]

text \<open>\<open>!v\<close> for a body field that is a string or missing.\<close>

definition falsy :: "string option \<Rightarrow> bool" where
  "falsy v = (case v of None \<Rightarrow> True | Some s \<Rightarrow> s = [])"

section \<open>Libraries and environment\<close>

text \<open>
  A call into a library either throws or returns. The libraries the handlers call
  (bcryptjs, crypto, jsonwebtoken, the Stream client) are parameters of the model:
  \<^item> \<open>bcrypt_genSalt rounds random\<close> and \<open>bcrypt_hash data salt\<close>;
  \<^item> \<open>bcrypt_compare entered stored\<close>;
  \<^item> \<open>sha256_hex data\<close> is \<open>createHash("sha256").update(data).digest("hex")\<close>;
  \<^item> \<open>jwt_sign userId secret expiresIn now\<close> signs the payload \<open>{userId}\<close>;
  \<^item> \<open>jwt_verify token secret now\<close> returns the payload's \<open>userId\<close> (\<open>None\<close> stands for
    a falsy result) or throws;
  \<^item> \<open>createToken apiKey apiSecret userId\<close> is the Stream client's \<open>createToken\<close>.
  Random draws and the clock are arguments of the handlers.
\<close>

datatype 'a completion = Throws | Returns 'a

record lib =
  bcrypt_genSalt :: "nat \<Rightarrow> string \<Rightarrow> string"
  bcrypt_hash :: "string \<Rightarrow> string \<Rightarrow> string"
  bcrypt_compare :: "string \<Rightarrow> string \<Rightarrow> bool"
  sha256_hex :: "string \<Rightarrow> string"
  jwt_sign :: "objectId \<Rightarrow> string \<Rightarrow> string \<Rightarrow> date \<Rightarrow> string"
  jwt_verify :: "string \<Rightarrow> string \<Rightarrow> date \<Rightarrow> objectId option completion"
  createToken :: "string \<Rightarrow> string \<Rightarrow> objectId \<Rightarrow> string completion"

record env =
  JWT_SECRET :: string
  NODE_ENV :: string
  FRONTEND_URL :: string
  STEAM_API_KEY :: string
  STEAM_API_SECRET :: string

section \<open>The User model (models/User.js)\<close>

text \<open>
  The schema's validators, run by \<open>save\<close> and \<open>create\<close> before the \<open>pre("save")\<close> hook:
  \<open>fullName\<close>, \<open>email\<close> and \<open>password\<close> are required, \<open>password\<close> has \<open>minlength: 6\<close>.
\<close>

definition validate :: "user \<Rightarrow> bool" where
  "validate u =
     (fullName u \<noteq> [] \<and> email u \<noteq> [] \<and> password u \<noteq> [] \<and> 6 \<le> length (password u))"

text \<open>
  \<open>userSchema.pre("save")\<close>: \<open>modified\<close> is \<open>this.isModified("password")\<close>, \<open>random\<close> the
  bytes \<open>genSalt\<close> draws.
\<close>

definition preSave :: "lib \<Rightarrow> string \<Rightarrow> bool \<Rightarrow> user \<Rightarrow> user" where
  "preSave l random modified u =
     (if \<not> modified then u
      else (let salt = bcrypt_genSalt l 10 random
            in u\<lparr> password := bcrypt_hash l (password u) salt \<rparr>))"

text \<open>\<open>userSchema.methods.matchPassword\<close>.\<close>

definition matchPassword :: "lib \<Rightarrow> user \<Rightarrow> string \<Rightarrow> bool" where
  "matchPassword l u enteredPassword = bcrypt_compare l enteredPassword (password u)"

text \<open>
  \<open>User.create\<close>: the schema's defaults, validation, the hook (every path of a new
  document is modified), then the insert, which the unique index on \<open>email\<close> refuses for
  an address already stored.
\<close>

definition User_create ::
  "lib \<Rightarrow> string \<Rightarrow> user list \<Rightarrow> string \<Rightarrow> string \<Rightarrow> string \<Rightarrow> string \<Rightarrow> (user \<times> user list) completion" where
  "User_create l random us e n p pic =
     (let doc = \<lparr> user_id = newObjectId (map user_id us), fullName = n, email = e,
                  password = p, bio = [], profilePic = pic, nativeLanguage = [],
                  learningLanguage = [], location = [], isOnboarded = False, friends = [],
                  passwordResetToken = None, passwordResetExpires = None \<rparr>
      in if \<not> validate doc then Throws
         else (let doc' = preSave l random True doc
               in if e \<in> email ` set us then Throws else Returns (doc', us @ [doc'])))"

text \<open>
  \<open>doc.save(options)\<close> of a document loaded as \<open>loaded\<close> and since assigned to: a path is
  modified when its value differs from the loaded one.
\<close>

definition saveUser ::
  "lib \<Rightarrow> string \<Rightarrow> bool \<Rightarrow> user \<Rightarrow> user \<Rightarrow> user list \<Rightarrow> user list completion" where
  "saveUser l random validateBeforeSave loaded doc us =
     (if validateBeforeSave \<and> \<not> validate doc then Throws
      else (let doc' = preSave l random (password doc \<noteq> password loaded) doc
            in Returns (findByIdAndUpdate (\<lambda>_. doc') (user_id doc) us)))"

definition findOneByEmail :: "user list \<Rightarrow> string \<Rightarrow> user option" where
  "findOneByEmail us e = find (\<lambda>u. email u = e) us"

section \<open>Authentication (controllers/auth.controller.js)\<close>

definition sessionCookie :: "env \<Rightarrow> string \<Rightarrow> cookie" where
  "sessionCookie ev token =
     \<lparr> cookie_name = ''jwt'', cookie_value = token, maxAge = 7 * 24 * 60 * 60 * 1000,
       httpOnly = True, sameSite = ''strict'', secure = (NODE_ENV ev = ''production'') \<rparr>"

text \<open>
  \<open>signup\<close>: \<open>draw\<close> is \<open>Math.floor(Math.random() * 50)\<close>, \<open>random\<close> the salt's bytes. The
  call to Stream (\<open>upsertStreamUser\<close>) sits in a \<open>try\<close> of its own that swallows every
  failure and touches neither the store nor the response, so it is not modelled.
\<close>

definition signup ::
  "lib \<Rightarrow> env \<Rightarrow> db \<Rightarrow> string option \<Rightarrow> string option \<Rightarrow> string option \<Rightarrow> nat \<Rightarrow> string \<Rightarrow> date
     \<Rightarrow> outcome \<times> db" where
  "signup l ev st email0 password0 fullName0 draw random now =
     (if falsy email0 \<or> falsy password0 \<or> falsy fullName0 then
        (Replied (Response 400 (message ''All fields are required'') None), st)
      else
        (case (email0, password0, fullName0) of
           (Some e0, Some pw, Some n) \<Rightarrow>
             (let e = trim (toLowerCase e0)
              in if length pw < 6 then
                   (Replied (Response 400 (message ''Password must be at least 6 characters'') None), st)
                 else if \<not> regexTest emailRegex e then
                   (Replied (Response 400 (message ''Invalid email format'') None), st)
                 else
                   (case findOneByEmail (users st) e of
                      Some existingUser \<Rightarrow>
                        (Replied (Response 400
                           (message ''Email already exists, please use a different one'') None), st)
                    | None \<Rightarrow>
                        (let idx = draw + 1;
                             randomAvatar = ''https://i.pravatar.cc/150?u='' @ decimal idx
                         in case User_create l random (users st) e n pw randomAvatar of
                              Throws \<Rightarrow> (Threw, st)
                            | Returns (newUser, us') \<Rightarrow>
                                (let token = jwt_sign l (user_id newUser) (JWT_SECRET ev) ''7d'' now
                                 in (Replied (Response 201
                                        (JObj [(''success'', JBool True),
                                               (''user'', JObj (user_json newUser))])
                                        (Some (sessionCookie ev token))),
                                     st\<lparr> users := us' \<rparr>)))))
         | _ \<Rightarrow> (Replied (Response 400 (message ''All fields are required'') None), st)))"

text \<open>\<open>login\<close> writes nothing: its result is the response.\<close>

definition login :: "lib \<Rightarrow> env \<Rightarrow> db \<Rightarrow> string option \<Rightarrow> string option \<Rightarrow> date \<Rightarrow> response" where
  "login l ev st email0 password0 now =
     (if falsy email0 \<or> falsy password0 then
        Response 400 (message ''All fields are required'') None
      else
        (case (email0, password0) of
           (Some e0, Some pw) \<Rightarrow>
             (let e = trim (toLowerCase e0)
              in case findOneByEmail (users st) e of
                   None \<Rightarrow> Response 401 (message ''Invalid email or password'') None
                 | Some u \<Rightarrow>
                     if \<not> matchPassword l u pw then
                       Response 401 (message ''Invalid email or password'') None
                     else
                       (let token = jwt_sign l (user_id u) (JWT_SECRET ev) ''7d'' now
                        in Response 200
                             (JObj [(''success'', JBool True), (''user'', JObj (user_json u))])
                             (Some (sessionCookie ev token))))
         | _ \<Rightarrow> Response 400 (message ''All fields are required'') None))"

text \<open>
  \<open>onboard\<close>: \<open>userId\<close> is \<open>req.user._id\<close>. The update is \<open>{...req.body, isOnboarded: true}\<close>,
  so every schema path the body carries is written, by \<open>findByIdAndUpdate\<close>, which runs
  neither the validators nor the \<open>pre("save")\<close> hook. The body's paths are optional; the
  unique index refuses an \<open>email\<close> another document holds.
\<close>

record onboardBody =
  body_fullName :: "string option"
  body_bio :: "string option"
  body_nativeLanguage :: "string option"
  body_learningLanguage :: "string option"
  body_location :: "string option"
  body_email :: "string option"
  body_password :: "string option"
  body_profilePic :: "string option"
  body_friends :: "objectId list option"
  body_passwordResetToken :: "string option"
  body_passwordResetExpires :: "date option"

definition orKeep :: "'a option \<Rightarrow> 'a \<Rightarrow> 'a" where
  "orKeep v old = (case v of None \<Rightarrow> old | Some x \<Rightarrow> x)"

definition orKeepOpt :: "'a option \<Rightarrow> 'a option \<Rightarrow> 'a option" where
  "orKeepOpt v old = (case v of None \<Rightarrow> old | Some x \<Rightarrow> Some x)"

definition applyBody :: "onboardBody \<Rightarrow> user \<Rightarrow> user" where
  "applyBody b u =
     u\<lparr> fullName := orKeep (body_fullName b) (fullName u),
        email := orKeep (body_email b) (email u),
        password := orKeep (body_password b) (password u),
        bio := orKeep (body_bio b) (bio u),
        profilePic := orKeep (body_profilePic b) (profilePic u),
        nativeLanguage := orKeep (body_nativeLanguage b) (nativeLanguage u),
        learningLanguage := orKeep (body_learningLanguage b) (learningLanguage u),
        location := orKeep (body_location b) (location u),
        isOnboarded := True,
        friends := orKeep (body_friends b) (friends u),
        passwordResetToken := orKeepOpt (body_passwordResetToken b) (passwordResetToken u),
        passwordResetExpires := orKeepOpt (body_passwordResetExpires b) (passwordResetExpires u) \<rparr>"

definition missingFields :: "onboardBody \<Rightarrow> json list" where
  "missingFields b =
     (if falsy (body_fullName b) then [JStr ''fullName''] else []) @
     (if falsy (body_bio b) then [JStr ''bio''] else []) @
     (if falsy (body_nativeLanguage b) then [JStr ''nativeLanguage''] else []) @
     (if falsy (body_learningLanguage b) then [JStr ''learningLanguage''] else []) @
     (if falsy (body_location b) then [JStr ''location''] else [])"

definition emailTaken :: "user list \<Rightarrow> objectId \<Rightarrow> string option \<Rightarrow> bool" where
  "emailTaken us userId e =
     (case e of None \<Rightarrow> False
      | Some a \<Rightarrow> a \<in> email ` set (filter (\<lambda>v. user_id v \<noteq> userId) us))"

definition onboard :: "db \<Rightarrow> objectId \<Rightarrow> onboardBody \<Rightarrow> outcome \<times> db" where
  "onboard st userId b =
     (if falsy (body_fullName b) \<or> falsy (body_bio b) \<or> falsy (body_nativeLanguage b) \<or>
         falsy (body_learningLanguage b) \<or> falsy (body_location b) then
        (Replied (Response 400
           (JObj [(''message'', JStr ''All fields are required''),
                  (''missingFields'', JArr (missingFields b))]) None), st)
      else
        (case findById (users st) userId of
           None \<Rightarrow> (Replied (Response 404 (message ''User not found'') None), st)
         | Some u \<Rightarrow>
             if emailTaken (users st) userId (body_email b) then (Threw, st)
             else (Finished, st\<lparr> users := findByIdAndUpdate (applyBody b) userId (users st) \<rparr>)))"

text \<open>
  \<open>forgotPassword\<close>: \<open>resetToken\<close> is \<open>crypto.randomBytes(32).toString("hex")\<close>, \<open>delivered\<close>
  whether \<open>sendEmail\<close> resolved. A missing \<open>email\<close> makes \<open>email.toLowerCase()\<close> throw. The
  result carries the message handed to \<open>sendEmail\<close>; the listing ends there.
\<close>

record mail =
  mail_to :: string
  subject :: string
  html :: string

definition resetMail :: "env \<Rightarrow> user \<Rightarrow> string \<Rightarrow> mail" where
  \<open>resetMail ev u resetToken =
     (let resetURL = FRONTEND_URL ev @ ''/reset-password/'' @ resetToken
      in \<lparr> mail_to = email u, subject = ''Password Reset Request'',
           html = ''<p>You requested a password reset. Click <a href="'' @ resetURL @
                  ''">here</a> to reset your password. This link is valid for 10 minutes.</p>'' \<rparr>)\<close>

definition forgotPassword ::
  "lib \<Rightarrow> env \<Rightarrow> db \<Rightarrow> string option \<Rightarrow> string \<Rightarrow> bool \<Rightarrow> date \<Rightarrow> (outcome \<times> mail option) \<times> db" where
  "forgotPassword l ev st email0 resetToken delivered now =
     (case email0 of
        None \<Rightarrow> ((Threw, None), st)
      | Some e0 \<Rightarrow>
          (let e = trim (toLowerCase e0)
           in case findOneByEmail (users st) e of
                None \<Rightarrow>
                  ((Replied (Response 404 (message ''User with this email does not exist'') None),
                    None), st)
              | Some u \<Rightarrow>
                  (let hashedToken = sha256_hex l resetToken;
                       doc = u\<lparr> passwordResetToken := Some hashedToken,
                                passwordResetExpires := Some (now + 10 * 60 * 1000) \<rparr>
                   in case saveUser l [] False u doc (users st) of
                        Throws \<Rightarrow> ((Threw, None), st)
                      | Returns us' \<Rightarrow>
                          ((if delivered then Finished else Threw, Some (resetMail ev doc resetToken)),
                           st\<lparr> users := us' \<rparr>))))"



section \<open>Session middleware (middleware/auth.middleware.js)\<close>

text \<open>
  \<open>protectRoute\<close>: \<open>cookie0\<close> is \<open>req.cookies.jwt\<close>. The result is the response it sends, or
  the document it attaches as \<open>req.user\<close> before \<open>next()\<close>: the user's paths without
  \<open>password\<close> (\<open>select("-password")\<close>). The whole body is inside a \<open>try\<close> whose \<open>catch\<close>
  answers 500.
\<close>

definition selectWithoutPassword :: "user \<Rightarrow> (string \<times> json) list" where
  "selectWithoutPassword u = filter (\<lambda>kv. fst kv \<noteq> ''password'') (user_json u)"

definition protectRoute ::
  "lib \<Rightarrow> env \<Rightarrow> db \<Rightarrow> string option \<Rightarrow> date \<Rightarrow> response + (string \<times> json) list" where
  "protectRoute l ev st cookie0 now =
     (if falsy cookie0 then Inl (Response 401 (message ''Unauthorized - No token provided'') None)
      else
        (case cookie0 of
           None \<Rightarrow> Inl (Response 401 (message ''Unauthorized - No token provided'') None)
         | Some token \<Rightarrow>
             (case jwt_verify l token (JWT_SECRET ev) now of
                Throws \<Rightarrow> Inl (Response 500 (message ''Internal Server Error'') None)
              | Returns None \<Rightarrow> Inl (Response 401 (message ''Unauthorized - Invalid token'') None)
              | Returns (Some userId) \<Rightarrow>
                  (case findById (users st) userId of
                     None \<Rightarrow> Inl (Response 401 (message ''Unauthorized - User not found'') None)
                   | Some u \<Rightarrow> Inr (selectWithoutPassword u)))))"

section \<open>Stream tokens (lib/stream.js, controllers/chat.controller.js)\<close>

text \<open>
  \<open>generateStreamToken\<close> wraps \<open>createToken\<close> in a \<open>try\<close> whose \<open>catch\<close> only logs: when
  \<open>createToken\<close> throws, the function returns \<open>undefined\<close> (\<open>None\<close>). \<open>getStreamToken\<close>
  answers 200 with \<open>{token}\<close>, a key \<open>res.json\<close> omits when the token is \<open>undefined\<close>, and
  500 when the call throws.
\<close>

definition generateStreamToken :: "lib \<Rightarrow> env \<Rightarrow> objectId \<Rightarrow> string option completion" where
  "generateStreamToken l ev userId =
     (case createToken l (STEAM_API_KEY ev) (STEAM_API_SECRET ev) userId of
        Throws \<Rightarrow> Returns None
      | Returns t \<Rightarrow> Returns (Some t))"

definition getStreamToken :: "lib \<Rightarrow> env \<Rightarrow> objectId \<Rightarrow> response" where
  "getStreamToken l ev userId =
     (case generateStreamToken l ev userId of
        Throws \<Rightarrow> Response 500 (message ''Internal Server Error'') None
      | Returns token \<Rightarrow> Response 200 (JObj (opt_field ''token'' JStr token)) None)"

section \<open>Predicates of the specification and sample stores\<close>

text \<open>
  A call of \<open>sendFriendRequest\<close> is rejected when it leaves the store as it was and answers
  400 or 404, or throws.
\<close>

definition rejects :: "db \<Rightarrow> string \<Rightarrow> string \<Rightarrow> bool" where
  "rejects st myId recipientId =
     (snd (sendFriendRequest st myId recipientId) = st \<and>
      (case fst (sendFriendRequest st myId recipientId) of
         Replied r \<Rightarrow> code r \<in> {400, 404}
       | Threw \<Rightarrow> True
       | Finished \<Rightarrow> False))"

text \<open>The request document a call creates: the 201 answer and the store with it appended.\<close>

definition creates :: "db \<Rightarrow> string \<Rightarrow> string \<Rightarrow> objectId \<Rightarrow> objectId \<Rightarrow> bool" where
  "creates st myId recipientId s r =
     (sendFriendRequest st myId recipientId =
        (Replied (Response 201
           (friendRequest_json \<lparr> request_id = newObjectId (map request_id (friendRequests st)),
                                  sender = s, recipient = r, status = Pending \<rparr>) None),
         st\<lparr> friendRequests := friendRequests st @
               [\<lparr> request_id = newObjectId (map request_id (friendRequests st)),
                  sender = s, recipient = r, status = Pending \<rparr>] \<rparr>))"

text \<open>Friend lists are mutual when every listed friend that has a document lists back.\<close>

definition mutual :: "db \<Rightarrow> bool" where
  "mutual st = (\<forall>u\<in>set (users st). \<forall>v\<in>set (users st).
      user_id v \<in> set (friends u) \<longrightarrow> user_id u \<in> set (friends v))"

text \<open>
  Sample stores of two users: with a one-sided friendship, as mutual friends, as strangers,
  and with a pending request from user 1 to user 2; a store of one user, whose id has a
  letter among its hexadecimal digits; and a store whose first user has a stored password
  of more than 6 characters.
\<close>

definition sample_user :: "objectId \<Rightarrow> string \<Rightarrow> string \<Rightarrow> objectId list \<Rightarrow> user" where
  "sample_user i e p fs =
     \<lparr> user_id = i, fullName = ''Ana'', email = e, password = p, bio = [], profilePic = [],
       nativeLanguage = [], learningLanguage = [], location = [], isOnboarded = False,
       friends = fs, passwordResetToken = None, passwordResetExpires = None \<rparr>"

definition one_sided :: db where
  "one_sided = \<lparr> users = [sample_user 1 ''a@x.io'' ''h1'' [2], sample_user 2 ''b@x.io'' ''h2'' []],
                 friendRequests = [] \<rparr>"

definition befriended_pair :: db where
  "befriended_pair = \<lparr> users = [sample_user 1 ''a@x.io'' ''h1'' [2], sample_user 2 ''b@x.io'' ''h2'' [1]],
                       friendRequests = [] \<rparr>"

definition loner :: db where
  "loner = \<lparr> users = [sample_user 10 ''j@x.io'' ''h10'' []], friendRequests = [] \<rparr>"


definition strangers :: db where
  "strangers = \<lparr> users = [sample_user 1 ''a@x.io'' ''h1'' [], sample_user 2 ''b@x.io'' ''h2'' []],
                 friendRequests = [] \<rparr>"

definition asked :: db where
  "asked = \<lparr> users = [sample_user 1 ''a@x.io'' ''h1'' [], sample_user 2 ''b@x.io'' ''h2'' []],
             friendRequests = [\<lparr> request_id = 7, sender = 1, recipient = 2, status = Pending \<rparr>] \<rparr>"

text \<open>What the claims read off a store: a friend of a user, the status of a request.\<close>

text \<open>
  Three users who have friends already, user 2 listing user 1, with a pending request
  from user 1 to user 2; and two mutual friends with their accepted request.
\<close>

definition acquainted :: db where
  "acquainted = \<lparr> users = [sample_user 1 ''a@x.io'' ''h1'' [3], sample_user 2 ''b@x.io'' ''h2'' [3, 1],
                            sample_user 3 ''c@x.io'' ''h3'' [1, 2]],
                  friendRequests = [\<lparr> request_id = 6, sender = 3, recipient = 1, status = Accepted \<rparr>,
                                    \<lparr> request_id = 7, sender = 1, recipient = 2, status = Pending \<rparr>] \<rparr>"

definition settled :: db where
  "settled = \<lparr> users = [sample_user 1 ''a@x.io'' ''h1'' [2], sample_user 2 ''b@x.io'' ''h2'' [1]],
               friendRequests = [\<lparr> request_id = 7, sender = 1, recipient = 2, status = Accepted \<rparr>] \<rparr>"

definition befriended :: "user list \<Rightarrow> objectId \<Rightarrow> objectId \<Rightarrow> bool" where
  "befriended us a b = (case findById us a of None \<Rightarrow> False | Some u \<Rightarrow> b \<in> set (friends u))"

definition statusOf :: "db \<Rightarrow> objectId \<Rightarrow> request_status option" where
  "statusOf st i = map_option status (findRequestById (friendRequests st) i)"

text \<open>The two updates of an accepted request, as one function of the user list.\<close>

definition bothAdded :: "objectId \<Rightarrow> objectId \<Rightarrow> user list \<Rightarrow> user list" where
  "bothAdded a b us = findByIdAndUpdate (addFriend a) b (findByIdAndUpdate (addFriend b) a us)"

text \<open>The status code of an outcome that is a response.\<close>

definition replyCode :: "outcome \<Rightarrow> nat option" where
  "replyCode out = (case out of Replied r \<Rightarrow> Some (code r) | _ \<Rightarrow> None)"

text \<open>
  Stand-ins for the libraries, to run the handlers on sample inputs: a salt is a tag before
  the random bytes, a hash is the salt before the reversed data, a session token is the
  secret before as many marks as the user's id.
\<close>

definition toy :: lib where
  "toy = \<lparr> bcrypt_genSalt = (\<lambda>rounds random. CHR ''$'' # random),
           bcrypt_hash = (\<lambda>data salt. salt @ rev data),
           bcrypt_compare = (\<lambda>entered stored. drop (length stored - length entered) stored = rev entered),
           sha256_hex = (\<lambda>data. CHR ''#'' # data),
           jwt_sign = (\<lambda>userId secret expiresIn now. secret @ replicate userId (CHR ''i'')),
           jwt_verify = (\<lambda>token secret now.
              if take (length secret) token = secret
              then Returns (Some (length token - length secret)) else Throws),
           createToken = (\<lambda>apiKey apiSecret userId.
              if apiSecret = [] then Throws else Returns (apiSecret @ replicate userId (CHR ''i''))) \<rparr>"

definition dev :: env where
  "dev = \<lparr> JWT_SECRET = ''s3cr3t'', NODE_ENV = ''development'',
           FRONTEND_URL = ''http://localhost:5173'', STEAM_API_KEY = ''key'',
           STEAM_API_SECRET = ''stream'' \<rparr>"

definition unconfigured :: env where
  "unconfigured = \<lparr> JWT_SECRET = ''s3cr3t'', NODE_ENV = ''development'',
           FRONTEND_URL = ''http://localhost:5173'', STEAM_API_KEY = [],
           STEAM_API_SECRET = [] \<rparr>"

text \<open>The document \<open>signup\<close> stores for an accepted registration.\<close>

definition createdUser :: "lib \<Rightarrow> db \<Rightarrow> string \<Rightarrow> string \<Rightarrow> string \<Rightarrow> nat \<Rightarrow> string \<Rightarrow> user" where
  "createdUser l st e pw n draw random =
     \<lparr> user_id = newObjectId (map user_id (users st)), fullName = n,
       email = trim (toLowerCase e),
       password = bcrypt_hash l pw (bcrypt_genSalt l 10 random), bio = [],
       profilePic = ''https://i.pravatar.cc/150?u='' @ decimal (draw + 1),
       nativeLanguage = [], learningLanguage = [], location = [], isOnboarded = False,
       friends = [], passwordResetToken = None, passwordResetExpires = None \<rparr>"


text \<open>The store after \<open>forgotPassword\<close> issued \<open>resetToken\<close> at time \<open>now\<close>.\<close>

definition issued :: "lib \<Rightarrow> env \<Rightarrow> db \<Rightarrow> string \<Rightarrow> string \<Rightarrow> bool \<Rightarrow> date \<Rightarrow> db" where
  "issued l ev st e resetToken delivered now =
     snd (forgotPassword l ev st (Some e) resetToken delivered now)"

text \<open>A user's document with a live token: the reset fields \<open>forgotPassword\<close> writes.\<close>

definition withToken :: "lib \<Rightarrow> user \<Rightarrow> string \<Rightarrow> date \<Rightarrow> user" where
  "withToken l u resetToken now =
     u\<lparr> passwordResetToken := Some (sha256_hex l resetToken),
        passwordResetExpires := Some (now + 10 * 60 * 1000) \<rparr>"

text \<open>A user's document after \<open>resetPassword\<close> saved \<open>newPassword\<close>.\<close>

definition afterReset :: "lib \<Rightarrow> user \<Rightarrow> string \<Rightarrow> string \<Rightarrow> user" where
  "afterReset l u newPassword random =
     u\<lparr> password := (if newPassword = password u then newPassword
                     else bcrypt_hash l newPassword (bcrypt_genSalt l 10 random)),
        passwordResetToken := None, passwordResetExpires := None \<rparr>"

text \<open>An onboarding body with the five profile paths and nothing else.\<close>

definition profile :: onboardBody where
  "profile = \<lparr> body_fullName = Some ''Ana B'', body_bio = Some ''hola'',
               body_nativeLanguage = Some ''spanish'', body_learningLanguage = Some ''english'',
               body_location = Some ''Lima'', body_email = None, body_password = None,
               body_profilePic = None, body_friends = None, body_passwordResetToken = None,
               body_passwordResetExpires = None \<rparr>"

section \<open>Evaluation and lookup lemmas\<close>

lemma sample_normalized: "trim (toLowerCase '' A@X.io '') = ''a@x.io''"
  by (simp add: trim_def toLowerCase_def toLowerCaseChar_def isWhiteSpace_def Let_def char_of_def bit_0)

lemma sample_unknown: "trim (toLowerCase ''nobody@x.io'') = ''nobody@x.io''"
  by (simp add: trim_def toLowerCase_def toLowerCaseChar_def isWhiteSpace_def Let_def char_of_def bit_0)

lemma falsy_Some [simp]: "falsy (Some s) \<longleftrightarrow> s = []"
  by (simp add: falsy_def)

lemma falsy_None [simp]: "falsy None"
  by (simp add: falsy_def)

lemma sample_fresh: "trim (toLowerCase '' C@X.io '') = ''c@x.io''"
  by (simp add: trim_def toLowerCase_def toLowerCaseChar_def isWhiteSpace_def Let_def char_of_def bit_0)

lemma sample_no_dot: "trim (toLowerCase ''c@x'') = ''c@x''"
  by (simp add: trim_def toLowerCase_def toLowerCaseChar_def isWhiteSpace_def Let_def char_of_def bit_0)

lemma sample_matches:
  "regexTest emailRegex ''c@x.io''" "regexTest emailRegex ''a@x.io''"
  "\<not> regexTest emailRegex ''c@x''"
  by (simp_all add: emailRegex_def isWhiteSpace_def)

lemma decimal_17: "decimal 17 = ''17''"
  by (simp add: decimal.simps char_of_def bit_0)

text \<open>Lists of documents with distinct ids.\<close>

lemma update_as_map:
  "distinct (map user_id us) \<Longrightarrow>
   findByIdAndUpdate f i us = map (\<lambda>v. if user_id v = i then f v else v) us"
proof (induction us)
  case Nil
  then show ?case by simp
next
  case (Cons v us)
  show ?case
  proof (cases "user_id v = i")
    case True
    with Cons.prems have "i \<notin> user_id ` set us" by auto
    then have "\<forall>w\<in>set us. user_id w \<noteq> i" by (auto simp: image_iff)
    then have "map (\<lambda>v. if user_id v = i then f v else v) us = us"
      by (simp add: map_idI)
    with True show ?thesis by simp
  next
    case False
    with Cons show ?thesis by simp
  qed
qed



lemma same_id_same_user:
  "distinct (map user_id us) \<Longrightarrow> u \<in> set us \<Longrightarrow> v \<in> set us \<Longrightarrow> user_id v = user_id u \<Longrightarrow> v = u"
  by (auto simp: distinct_map inj_on_def)





section \<open>Sending a friend request\<close>

text \<open>Casting the canonical string of an id gives the id back.\<close>

lemma hexValue_hexDigit: "d < 16 \<Longrightarrow> hexValue (hexDigit d) = Some d"
  by (auto simp: hexValue_def hexDigit_def Let_def of_char_of)

lemma parseHex_digits:
  "parseHex acc (map (\<lambda>k. hexDigit (i div 16 ^ k mod 16)) (rev [0..<n])) =
     Some (acc * 16 ^ n + i mod 16 ^ n)"
proof (induction n arbitrary: acc)
  case 0
  then show ?case by simp
next
  case (Suc n)
  have d: "hexValue (hexDigit (i div 16 ^ n mod 16)) = Some (i div 16 ^ n mod 16)"
    by (rule hexValue_hexDigit) simp
  have "i mod (16 ^ n * 16) = 16 ^ n * (i div 16 ^ n mod 16) + i mod 16 ^ n"
    by (rule mod_mult2_eq)
  then have split: "i mod 16 ^ Suc n = 16 ^ n * (i div 16 ^ n mod 16) + i mod 16 ^ n"
    by (simp only: power_Suc mult.commute)
  have "parseHex acc (map (\<lambda>k. hexDigit (i div 16 ^ k mod 16)) (rev [0..<Suc n])) =
        parseHex (16 * acc + i div 16 ^ n mod 16)
          (map (\<lambda>k. hexDigit (i div 16 ^ k mod 16)) (rev [0..<n]))"
    by (simp add: d)
  also have "\<dots> = Some ((16 * acc + i div 16 ^ n mod 16) * 16 ^ n + i mod 16 ^ n)"
    by (rule Suc.IH)
  also have "(16 * acc + i div 16 ^ n mod 16) * 16 ^ n + i mod 16 ^ n =
             acc * 16 ^ Suc n + i mod 16 ^ Suc n"
    by (simp only: split) (simp add: algebra_simps)
  finally show ?case .
qed

lemma castObjectId_toHexString: "i < 16 ^ 24 \<Longrightarrow> castObjectId (toHexString i) = Some i"
  using parseHex_digits[of 0 i 24] by (simp add: castObjectId_def toHexString_def)

lemma positions:
  "rev [0..<24] = [23, 22, 21, 20, 19, 18, 17, 16, 15, 14, 13, 12, 11, 10, 9, 8, 7, 6, 5, 4, 3, 2, 1, 0]"
  by (simp add: eval_nat_numeral)

lemma sample_hex:
  "toHexString 1 = ''000000000000000000000001''"
  "toHexString (Suc 0) = ''000000000000000000000001''"
  "toHexString 2 = ''000000000000000000000002''"
  "toHexString 10 = ''00000000000000000000000a''"
  by (simp_all add: toHexString_def positions hexDigit_def char_of_def bit_0)

lemma sample_casts:
  "castObjectId ''000000000000000000000001'' = Some 1"
  "castObjectId ''000000000000000000000002'' = Some 2"
  "castObjectId ''000000000000000000000003'' = Some 3"
  "castObjectId ''00000000000000000000000a'' = Some 10"
  "castObjectId ''00000000000000000000000A'' = Some 10"
  "castObjectId ''me'' = None"
  by (simp_all add: castObjectId_def hexValue_def)

lemma existingRequest_None:
  "existingRequest rs a b = None \<longleftrightarrow>
     \<not> (\<exists>r\<in>set rs. (sender r = a \<and> recipient r = b) \<or> (sender r = b \<and> recipient r = a))"
  by (auto simp: existingRequest_def find_None_iff)

lemma findById_SomeD: "findById us i = Some u \<Longrightarrow> u \<in> set us \<and> user_id u = i"
  by (auto simp: findById_def find_Some_iff)

lemma send_self:
  "sendFriendRequest st x x =
     (Replied (Response 400 (message ''You can't send friend request to yourself'') None), st)"
  by (simp add: sendFriendRequest_def)

lemma send_cast_throws:
  "myId \<noteq> recipientId \<Longrightarrow> castObjectId recipientId = None \<Longrightarrow>
   sendFriendRequest st myId recipientId = (Threw, st)"
  by (simp add: sendFriendRequest_def)

lemma rejects_missing:
  "castObjectId recipientId = Some rid \<Longrightarrow> findById (users st) rid = None \<Longrightarrow>
   rejects st myId recipientId"
  by (simp add: rejects_def sendFriendRequest_def)

lemma rejects_friend:
  "castObjectId recipientId = Some rid \<Longrightarrow> findById (users st) rid = Some rcp \<Longrightarrow>
   myId \<in> set (map toHexString (friends rcp)) \<Longrightarrow> rejects st myId recipientId"
  by (simp add: rejects_def sendFriendRequest_def)

lemma rejects_existing:
  assumes "castObjectId recipientId = Some rid" "castObjectId myId = Some sid"
    and "\<exists>r\<in>set (friendRequests st). (sender r = sid \<and> recipient r = rid) \<or>
                                     (sender r = rid \<and> recipient r = sid)"
  shows "rejects st myId recipientId"
proof -
  from assms(3) obtain r where "existingRequest (friendRequests st) sid rid = Some r"
    using existingRequest_None[of "friendRequests st" sid rid] by auto
  with assms(1,2) show ?thesis
    by (simp add: rejects_def sendFriendRequest_def split: option.splits)
qed

lemma send_creates:
  assumes "myId \<noteq> recipientId" "castObjectId recipientId = Some rid"
    and "findById (users st) rid = Some rcp" "myId \<notin> set (map toHexString (friends rcp))"
    and "castObjectId myId = Some sid"
    and "\<not> (\<exists>r\<in>set (friendRequests st). (sender r = sid \<and> recipient r = rid) \<or>
                                        (sender r = rid \<and> recipient r = sid))"
  shows "creates st myId recipientId sid rid"
proof -
  from assms(6) have "existingRequest (friendRequests st) sid rid = None"
    by (simp add: existingRequest_None)
  with assms(1-5) show ?thesis
    by (simp add: creates_def sendFriendRequest_def Let_def)
qed

lemma creates_then_rejects:
  assumes c: "creates st myId recipientId sid rid"
    and cast: "castObjectId myId' = Some rid" "castObjectId recipientId' = Some sid"
  shows "rejects (snd (sendFriendRequest st myId recipientId)) myId' recipientId'"
proof (rule rejects_existing[OF cast(2) cast(1)])
  let ?fr = "\<lparr> request_id = newObjectId (map request_id (friendRequests st)),
               sender = sid, recipient = rid, status = Pending \<rparr>"
  have "?fr \<in> set (friendRequests (snd (sendFriendRequest st myId recipientId)))"
    using c by (simp add: creates_def)
  moreover have "sender ?fr = sid \<and> recipient ?fr = rid" by simp
  ultimately show "\<exists>r\<in>set (friendRequests (snd (sendFriendRequest st myId recipientId))).
      (sender r = rid \<and> recipient r = sid) \<or> (sender r = sid \<and> recipient r = rid)"
    by blast
qed

text \<open>
  With mutual friend lists the check of the recipient's list also covers a recipient who
  is in the sender's list; without, it does not: in \<open>one_sided\<close> user 2 is in the
  \<open>friends\<close> of user 1 but not the other way round, and the request from 1 to 2 is created.
\<close>

lemma mutual_rejects:
  assumes "mutual st" "findById (users st) me = Some m"
    and "castObjectId recipientId = Some rid" "rid \<in> set (friends m)"
  shows "rejects st (toHexString me) recipientId"
proof (cases "findById (users st) rid")
  case None
  with assms(3) show ?thesis by (rule rejects_missing)
next
  case (Some rcp)
  from assms(2) have m: "m \<in> set (users st)" "user_id m = me"
    using findById_SomeD by auto
  from Some have rcp: "rcp \<in> set (users st)" "user_id rcp = rid"
    using findById_SomeD by auto
  from assms(1) m rcp assms(4) have "me \<in> set (friends rcp)"
    unfolding mutual_def by blast
  then have "toHexString me \<in> set (map toHexString (friends rcp))" by simp
  with assms(3) Some show ?thesis by (rule rejects_friend)
qed

lemma one_sided_creates:
  "2 \<in> set (friends (sample_user 1 ''a@x.io'' ''h1'' [2])) \<and>
   findById (users one_sided) 1 = Some (sample_user 1 ''a@x.io'' ''h1'' [2]) \<and>
   creates one_sided ''000000000000000000000001'' ''000000000000000000000002'' 1 2"
  by (simp add: creates_def sendFriendRequest_def sample_casts one_sided_def sample_user_def
      findById_def existingRequest_def Let_def)

text \<open>
  Claim C1, on the code. For a sender whose id is \<open>me\<close>, so that \<open>req.user.id\<close> is
  \<open>toHexString me\<close>, \<open>sendFriendRequest\<close>
  \<^item> answers 400 and writes nothing when the route parameter is the sender's own string;
  \<^item> throws, writing nothing, when the route parameter is not the string of an id;
  \<^item> rejects the call when the recipient has no document, when the sender is in the
    recipient's \<open>friends\<close>, and when a request between the two exists in either direction;
  \<^item> rejects the request back from the recipient once a request was created;
  \<^item> but creates a request from the sender to the sender when the route parameter is
    another spelling of the sender's id (upper-case digits): the strings differ, the cast
    gives the same id.
\<close>

theorem sendFriendRequest_outcomes:
  assumes "me < 16 ^ 24"
  shows
    "sendFriendRequest st (toHexString me) (toHexString me) =
       (Replied (Response 400 (message ''You can't send friend request to yourself'') None), st) \<and>
     (recipientId \<noteq> toHexString me \<and> castObjectId recipientId = None \<longrightarrow>
        sendFriendRequest st (toHexString me) recipientId = (Threw, st)) \<and>
     (castObjectId recipientId = Some rid \<and> findById (users st) rid = None \<longrightarrow>
        rejects st (toHexString me) recipientId) \<and>
     (castObjectId recipientId = Some rid \<and> findById (users st) rid = Some rcp \<and>
      me \<in> set (friends rcp) \<longrightarrow>
        rejects st (toHexString me) recipientId) \<and>
     (castObjectId recipientId = Some rid \<and>
      (\<exists>r\<in>set (friendRequests st). (sender r = me \<and> recipient r = rid) \<or>
                                    (sender r = rid \<and> recipient r = me)) \<longrightarrow>
        rejects st (toHexString me) recipientId) \<and>
     (creates st (toHexString me) recipientId me rid \<and> rid < 16 ^ 24 \<and>
      castObjectId answer = Some me \<longrightarrow>
        rejects (snd (sendFriendRequest st (toHexString me) recipientId)) (toHexString rid) answer) \<and>
     (recipientId \<noteq> toHexString me \<and> castObjectId recipientId = Some me \<and>
      findById (users st) me = Some u \<and> toHexString me \<notin> set (map toHexString (friends u)) \<and>
      \<not> (\<exists>r\<in>set (friendRequests st). sender r = me \<and> recipient r = me) \<longrightarrow>
        creates st (toHexString me) recipientId me me)"
proof -
  have own: "castObjectId (toHexString me) = Some me"
    using assms by (rule castObjectId_toHexString)
  show ?thesis
  proof (intro conjI impI)
    show "sendFriendRequest st (toHexString me) (toHexString me) =
       (Replied (Response 400 (message ''You can't send friend request to yourself'') None), st)"
      by (rule send_self)
  next
    assume "recipientId \<noteq> toHexString me \<and> castObjectId recipientId = None"
    then show "sendFriendRequest st (toHexString me) recipientId = (Threw, st)"
      by (intro send_cast_throws) auto
  next
    assume "castObjectId recipientId = Some rid \<and> findById (users st) rid = None"
    then show "rejects st (toHexString me) recipientId"
      using rejects_missing by blast
  next
    assume a: "castObjectId recipientId = Some rid \<and> findById (users st) rid = Some rcp \<and>
      me \<in> set (friends rcp)"
    then have "toHexString me \<in> set (map toHexString (friends rcp))" by simp
    with a show "rejects st (toHexString me) recipientId"
      using rejects_friend by blast
  next
    assume "castObjectId recipientId = Some rid \<and>
      (\<exists>r\<in>set (friendRequests st). (sender r = me \<and> recipient r = rid) \<or>
                                    (sender r = rid \<and> recipient r = me))"
    then show "rejects st (toHexString me) recipientId"
      using rejects_existing[OF _ own] by blast
  next
    assume a: "creates st (toHexString me) recipientId me rid \<and> rid < 16 ^ 24 \<and>
      castObjectId answer = Some me"
    then have "castObjectId (toHexString rid) = Some rid"
      using castObjectId_toHexString by blast
    with a show "rejects (snd (sendFriendRequest st (toHexString me) recipientId)) (toHexString rid) answer"
      using creates_then_rejects by blast
  next
    assume a: "recipientId \<noteq> toHexString me \<and> castObjectId recipientId = Some me \<and>
      findById (users st) me = Some u \<and> toHexString me \<notin> set (map toHexString (friends u)) \<and>
      \<not> (\<exists>r\<in>set (friendRequests st). sender r = me \<and> recipient r = me)"
    show "creates st (toHexString me) recipientId me me"
    proof (rule send_creates[OF _ _ _ _ own])
      show "toHexString me \<noteq> recipientId" using a by auto
      show "castObjectId recipientId = Some me" using a by simp
      show "findById (users st) me = Some u" using a by simp
      show "toHexString me \<notin> set (map toHexString (friends u))" using a by simp
      show "\<not> (\<exists>r\<in>set (friendRequests st). (sender r = me \<and> recipient r = me) \<or>
                                        (sender r = me \<and> recipient r = me))"
        using a by simp
    qed
  qed
qed


text \<open>
  Calls by user 1 and user 2 in the sample stores, and the call by user 10 with its own
  id spelled \<open>00000000000000000000000A\<close>.
\<close>

theorem sendFriendRequest_outcomes_witness:
  "sendFriendRequest strangers ''000000000000000000000001'' ''000000000000000000000001'' =
     (Replied (Response 400 (message ''You can't send friend request to yourself'') None), strangers) \<and>
   sendFriendRequest strangers ''000000000000000000000001'' ''me'' = (Threw, strangers) \<and>
   rejects strangers ''000000000000000000000001'' ''000000000000000000000003'' \<and>
   rejects befriended_pair ''000000000000000000000001'' ''000000000000000000000002'' \<and>
   rejects asked ''000000000000000000000002'' ''000000000000000000000001'' \<and>
   creates strangers ''000000000000000000000001'' ''000000000000000000000002'' 1 2 \<and>
   rejects (snd (sendFriendRequest strangers ''000000000000000000000001'' ''000000000000000000000002''))
     ''000000000000000000000002'' ''000000000000000000000001'' \<and>
   toHexString 10 = ''00000000000000000000000a'' \<and>
   castObjectId ''00000000000000000000000A'' = Some 10 \<and>
   creates loner ''00000000000000000000000a'' ''00000000000000000000000A'' 10 10"
proof -
  have c: "creates strangers ''000000000000000000000001'' ''000000000000000000000002'' 1 2"
    by (simp add: creates_def sendFriendRequest_def sample_casts strangers_def sample_user_def
        findById_def existingRequest_def Let_def)
  have a: "sendFriendRequest strangers ''000000000000000000000001'' ''000000000000000000000001'' =
       (Replied (Response 400 (message ''You can't send friend request to yourself'') None), strangers) \<and>
     rejects (snd (sendFriendRequest strangers ''000000000000000000000001'' ''000000000000000000000002''))
       ''000000000000000000000002'' ''000000000000000000000001''"
    using c sendFriendRequest_outcomes[where me = 1 and st = strangers
        and recipientId = "''000000000000000000000002''" and rid = 2
        and rcp = "sample_user 2 ''b@x.io'' ''h2'' []" and answer = "''000000000000000000000001''"
        and u = "sample_user 1 ''a@x.io'' ''h1'' []"]
    by (simp add: sample_hex sample_casts)
  have b: "sendFriendRequest strangers ''000000000000000000000001'' ''me'' = (Threw, strangers)"
    using sendFriendRequest_outcomes[where me = 1 and st = strangers
        and recipientId = "''me''" and rid = 2
        and rcp = "sample_user 2 ''b@x.io'' ''h2'' []" and answer = "''000000000000000000000001''"
        and u = "sample_user 1 ''a@x.io'' ''h1'' []"]
    by (simp add: sample_hex sample_casts)
  have m: "rejects strangers ''000000000000000000000001'' ''000000000000000000000003''"
    using sendFriendRequest_outcomes[where me = 1 and st = strangers
        and recipientId = "''000000000000000000000003''" and rid = 3
        and rcp = "sample_user 2 ''b@x.io'' ''h2'' []" and answer = "''000000000000000000000001''"
        and u = "sample_user 1 ''a@x.io'' ''h1'' []"]
    by (simp add: sample_hex sample_casts strangers_def sample_user_def findById_def)
  have f: "rejects befriended_pair ''000000000000000000000001'' ''000000000000000000000002''"
    using sendFriendRequest_outcomes[where me = 1 and st = befriended_pair
        and recipientId = "''000000000000000000000002''" and rid = 2
        and rcp = "sample_user 2 ''b@x.io'' ''h2'' [1]" and answer = "''000000000000000000000001''"
        and u = "sample_user 1 ''a@x.io'' ''h1'' [2]"]
    by (simp add: sample_hex sample_casts befriended_pair_def sample_user_def findById_def)
  have e: "rejects asked ''000000000000000000000002'' ''000000000000000000000001''"
    using sendFriendRequest_outcomes[where me = 2 and st = asked
        and recipientId = "''000000000000000000000001''" and rid = 1
        and rcp = "sample_user 1 ''a@x.io'' ''h1'' []" and answer = "''000000000000000000000001''"
        and u = "sample_user 2 ''b@x.io'' ''h2'' []"]
    by (simp add: sample_hex sample_casts asked_def)
  have d: "creates loner ''00000000000000000000000a'' ''00000000000000000000000A'' 10 10"
    using sendFriendRequest_outcomes[where me = 10 and st = loner
        and recipientId = "''00000000000000000000000A''" and rid = 10
        and rcp = "sample_user 10 ''j@x.io'' ''h10'' []" and answer = "''00000000000000000000000a''"
        and u = "sample_user 10 ''j@x.io'' ''h10'' []"]
    by (simp add: sample_hex sample_casts loner_def sample_user_def findById_def)
  from a b m f e c d show ?thesis
    by (simp add: sample_hex sample_casts)
qed

section \<open>Accepting a friend request\<close>

lemma findRequestById_SomeD:
  "findRequestById rs i = Some r \<Longrightarrow> r \<in> set rs \<and> request_id r = i"
  by (auto simp: findRequestById_def find_Some_iff)

lemma findRequestById_saveRequest:
  "findRequestById rs (request_id d) = Some r \<Longrightarrow>
   findRequestById (saveRequest d rs) (request_id d) = Some d"
  by (induction rs) (auto simp: findRequestById_def)

lemma saveRequest_same:
  "findRequestById rs (request_id d) = Some d \<Longrightarrow> saveRequest d rs = rs"
  by (induction rs) (auto simp: findRequestById_def split: if_splits)

lemma findById_update:
  assumes "\<And>u. user_id (f u) = user_id u"
  shows "findById (findByIdAndUpdate f j us) i =
         (if i = j then map_option f (findById us i) else findById us i)"
  using assms by (induction us) (auto simp: findById_def)

lemma update_same:
  "(case findById us i of None \<Rightarrow> True | Some u \<Rightarrow> f u = u) \<Longrightarrow> findByIdAndUpdate f i us = us"
  by (induction us) (auto simp: findById_def split: if_splits)

lemma addFriend_id [simp]: "user_id (addFriend x u) = user_id u"
  by (simp add: addFriend_def)

lemma addFriend_mem [simp]: "x \<in> set (friends (addFriend x u))"
  by (simp add: addFriend_def addToSet_def)

lemma addFriend_keeps: "y \<in> set (friends u) \<Longrightarrow> y \<in> set (friends (addFriend x u))"
  by (simp add: addFriend_def addToSet_def)

lemma addFriend_same: "x \<in> set (friends u) \<Longrightarrow> addFriend x u = u"
  by (simp add: addFriend_def addToSet_def)

lemma findById_bothAdded:
  "findById (bothAdded a b us) i =
     (if i = b then map_option (addFriend a) (if b = a then map_option (addFriend b) (findById us b) else findById us b)
      else if i = a then map_option (addFriend b) (findById us a) else findById us i)"
  by (simp add: bothAdded_def findById_update)

lemma befriended_bothAdded_sender:
  "findById us a \<noteq> None \<Longrightarrow> befriended (bothAdded a b us) a b"
  by (auto simp: befriended_def findById_bothAdded addFriend_keeps split: option.splits)

lemma befriended_bothAdded_recipient:
  "findById us b \<noteq> None \<Longrightarrow> befriended (bothAdded a b us) b a"
  by (auto simp: befriended_def findById_bothAdded split: option.splits)

lemma bothAdded_idem: "bothAdded a b (bothAdded a b us) = bothAdded a b us"
proof -
  let ?us = "bothAdded a b us"
  have 1: "findByIdAndUpdate (addFriend b) a ?us = ?us"
    by (rule update_same) (auto simp: findById_bothAdded addFriend_same addFriend_keeps split: option.splits)
  have 2: "findByIdAndUpdate (addFriend a) b ?us = ?us"
    by (rule update_same) (auto simp: findById_bothAdded addFriend_same addFriend_keeps split: option.splits)
  show ?thesis
    unfolding bothAdded_def[of a b ?us] 1 2 ..
qed

lemma accept_by_recipient:
  assumes "findRequestById (friendRequests st) requestId = Some fr" "recipient fr = userId"
  shows "acceptFriendRequest st requestId userId =
           (Finished, \<lparr> users = bothAdded (sender fr) userId (users st),
                        friendRequests = saveRequest (fr\<lparr> status := Accepted \<rparr>) (friendRequests st) \<rparr>)"
  using assms by (simp add: acceptFriendRequest_def bothAdded_def Let_def)

text \<open>
  Claim C2. When the acting user is not the recipient of the request the id refers to
  (pending or not), \<open>acceptFriendRequest\<close> answers 403 and returns the store as it was:
  the request keeps its status and no \<open>friends\<close> list changes.
\<close>

theorem acceptFriendRequest_not_recipient:
  assumes "findRequestById (friendRequests st) requestId = Some fr"
    and "recipient fr \<noteq> actingUser"
  shows "acceptFriendRequest st requestId actingUser =
           (Replied (Response 403 (message ''You are not authorized to accept this request'') None), st)"
  using assms by (simp add: acceptFriendRequest_def)

text \<open>The sender of request 7 tries to accept it.\<close>

theorem acceptFriendRequest_not_recipient_witness:
  "findRequestById (friendRequests asked) 7 =
     Some \<lparr> request_id = 7, sender = 1, recipient = 2, status = Pending \<rparr> \<and>
   acceptFriendRequest asked 7 1 =
     (Replied (Response 403 (message ''You are not authorized to accept this request'') None), asked) \<and>
   statusOf asked 7 = Some Pending"
  using acceptFriendRequest_not_recipient[of asked 7
      "\<lparr> request_id = 7, sender = 1, recipient = 2, status = Pending \<rparr>" 1]
  by (simp add: asked_def findRequestById_def statusOf_def)

lemma addFriend_explicit:
  "addFriend x u = u\<lparr> friends := (if x \<in> set (friends u) then friends u else friends u @ [x]) \<rparr>"
  by (simp add: addFriend_def addToSet_def)

lemma findRequestById_saveRequest_other:
  "j \<noteq> request_id d \<Longrightarrow> findRequestById (saveRequest d rs) j = findRequestById rs j"
  by (induction rs) (auto simp: findRequestById_def)

lemma bothAdded_ids: "map user_id (bothAdded a b us) = map user_id us"
proof -
  have "\<And>f i xs. (\<And>u. user_id (f u) = user_id u) \<Longrightarrow>
          map user_id (findByIdAndUpdate f i xs) = map user_id xs"
  proof -
    fix f :: "user \<Rightarrow> user" and i xs
    assume "\<And>u. user_id (f u) = user_id u"
    then show "map user_id (findByIdAndUpdate f i xs) = map user_id xs"
      by (induction xs) simp_all
  qed
  then show ?thesis by (simp add: bothAdded_def)
qed

lemma addFriend_twice: "addFriend x (addFriend x u) = addFriend x u"
  by (rule addFriend_same) simp

lemma bothAdded_sender_doc:
  assumes "findById us a = Some u"
  shows "findById (bothAdded a b us) a =
     Some (u\<lparr> friends := (if b \<in> set (friends u) then friends u else friends u @ [b]) \<rparr>)"
proof -
  have "findById (bothAdded a b us) a = Some (addFriend b u)"
  proof (cases "a = b")
    case True
    with assms show ?thesis by (simp add: findById_bothAdded addFriend_twice)
  next
    case False
    with assms show ?thesis by (simp add: findById_bothAdded)
  qed
  then show ?thesis by (simp only: addFriend_explicit)
qed

lemma bothAdded_recipient_doc:
  assumes "findById us b = Some u"
  shows "findById (bothAdded a b us) b =
     Some (u\<lparr> friends := (if a \<in> set (friends u) then friends u else friends u @ [a]) \<rparr>)"
proof -
  have "findById (bothAdded a b us) b = Some (addFriend a u)"
  proof (cases "a = b")
    case True
    with assms show ?thesis by (simp add: findById_bothAdded addFriend_twice)
  next
    case False
    with assms show ?thesis by (simp add: findById_bothAdded)
  qed
  then show ?thesis by (simp only: addFriend_explicit)
qed

lemma bothAdded_others:
  "i \<noteq> a \<Longrightarrow> i \<noteq> b \<Longrightarrow> findById (bothAdded a b us) i = findById us i"
  by (simp add: findById_bothAdded)

lemma bothAdded_same:
  assumes "\<forall>u. findById us a = Some u \<longrightarrow> b \<in> set (friends u)"
    and "\<forall>u. findById us b = Some u \<longrightarrow> a \<in> set (friends u)"
  shows "bothAdded a b us = us"
proof -
  have 1: "findByIdAndUpdate (addFriend b) a us = us"
    by (rule update_same) (use assms(1) in \<open>auto simp: addFriend_same split: option.splits\<close>)
  have 2: "findByIdAndUpdate (addFriend a) b us = us"
    by (rule update_same) (use assms(2) in \<open>auto simp: addFriend_same split: option.splits\<close>)
  show ?thesis by (simp add: bothAdded_def 1 2)
qed

lemma accept_settled:
  assumes found: "findRequestById (friendRequests st) requestId = Some fr"
    and "recipient fr = B" and "status fr = Accepted"
    and "\<forall>u. findById (users st) (sender fr) = Some u \<longrightarrow> B \<in> set (friends u)"
    and "\<forall>u. findById (users st) B = Some u \<longrightarrow> sender fr \<in> set (friends u)"
  shows "acceptFriendRequest st requestId B = (Finished, st)"
proof -
  have rid: "request_id fr = requestId"
    using found findRequestById_SomeD by blast
  have fr: "fr\<lparr> status := Accepted \<rparr> = fr"
    using assms(3) by simp
  have rs: "saveRequest fr (friendRequests st) = friendRequests st"
    using found rid by (intro saveRequest_same) simp
  have us: "bothAdded (sender fr) B (users st) = users st"
    using assms(4,5) by (rule bothAdded_same)
  show ?thesis
    using accept_by_recipient[OF found assms(2)] by (simp add: fr rs us)
qed

text \<open>
  Claim C3. When the recipient B accepts a request sent by A, the handler runs to its end
  and, in the store it leaves,
  \<^item> the request is the stored one with status \<open>accepted\<close>, and every other request is as
    it was;
  \<^item> the document of A is the one it was with B appended to \<open>friends\<close>, or exactly the one
    it was when \<open>friends\<close> held B already; likewise the document of B with A; so B is
    in the \<open>friends\<close> of A, A in those of B, and no friend either had is lost;
  \<^item> every other user's document is as it was, and the list of users has the same ids;
  \<^item> accepting the same request again returns the very same store;
  \<^item> in any store where the request is accepted already and each of the two lists the
    other, accepting returns the store as it is: the add is a no-op on a member.
\<close>

theorem acceptFriendRequest_befriends:
  assumes "findRequestById (friendRequests st) requestId = Some fr"
    and "sender fr = A" and "recipient fr = B"
  shows "fst (acceptFriendRequest st requestId B) = Finished \<and>
         statusOf (snd (acceptFriendRequest st requestId B)) requestId = Some Accepted \<and>
         (findById (users st) A \<noteq> None \<longrightarrow>
            befriended (users (snd (acceptFriendRequest st requestId B))) A B) \<and>
         (findById (users st) B \<noteq> None \<longrightarrow>
            befriended (users (snd (acceptFriendRequest st requestId B))) B A) \<and>
         acceptFriendRequest (snd (acceptFriendRequest st requestId B)) requestId B =
           (Finished, snd (acceptFriendRequest st requestId B)) \<and>
         (findById (users st) A = Some a \<longrightarrow>
            findById (users (snd (acceptFriendRequest st requestId B))) A =
              Some (a\<lparr> friends := (if B \<in> set (friends a) then friends a else friends a @ [B]) \<rparr>)) \<and>
         (findById (users st) B = Some b \<longrightarrow>
            findById (users (snd (acceptFriendRequest st requestId B))) B =
              Some (b\<lparr> friends := (if A \<in> set (friends b) then friends b else friends b @ [A]) \<rparr>)) \<and>
         (i \<noteq> A \<and> i \<noteq> B \<longrightarrow>
            findById (users (snd (acceptFriendRequest st requestId B))) i = findById (users st) i) \<and>
         map user_id (users (snd (acceptFriendRequest st requestId B))) = map user_id (users st) \<and>
         findRequestById (friendRequests (snd (acceptFriendRequest st requestId B))) requestId =
           Some (fr\<lparr> status := Accepted \<rparr>) \<and>
         (j \<noteq> requestId \<longrightarrow>
            findRequestById (friendRequests (snd (acceptFriendRequest st requestId B))) j =
              findRequestById (friendRequests st) j) \<and>
         (status fr = Accepted \<and>
          (\<forall>u. findById (users st) A = Some u \<longrightarrow> B \<in> set (friends u)) \<and>
          (\<forall>u. findById (users st) B = Some u \<longrightarrow> A \<in> set (friends u)) \<longrightarrow>
            acceptFriendRequest st requestId B = (Finished, st))"
proof -
  let ?fr = "fr\<lparr> status := Accepted \<rparr>"
  let ?st = "\<lparr> users = bothAdded A B (users st),
               friendRequests = saveRequest ?fr (friendRequests st) \<rparr>"
  have rid: "request_id fr = requestId"
    using assms(1) findRequestById_SomeD by blast
  have first: "acceptFriendRequest st requestId B = (Finished, ?st)"
    using accept_by_recipient[OF assms(1,3)] assms(2) by simp
  have found: "findRequestById (friendRequests ?st) requestId = Some ?fr"
    using findRequestById_saveRequest[of "friendRequests st" ?fr fr] assms(1) rid by simp
  have again: "acceptFriendRequest ?st requestId B = (Finished, ?st)"
    using accept_by_recipient[OF found] assms(2,3) saveRequest_same[of "friendRequests ?st" ?fr] found rid
    by (simp add: bothAdded_idem)
  have others: "j \<noteq> requestId \<longrightarrow>
      findRequestById (friendRequests ?st) j = findRequestById (friendRequests st) j"
    using findRequestById_saveRequest_other[of j ?fr "friendRequests st"] rid by simp
  have noop: "status fr = Accepted \<and>
          (\<forall>u. findById (users st) A = Some u \<longrightarrow> B \<in> set (friends u)) \<and>
          (\<forall>u. findById (users st) B = Some u \<longrightarrow> A \<in> set (friends u)) \<longrightarrow>
            acceptFriendRequest st requestId B = (Finished, st)"
    using accept_settled[OF assms(1,3)] assms(2) by blast
  have old: "fst (acceptFriendRequest st requestId B) = Finished \<and>
         statusOf (snd (acceptFriendRequest st requestId B)) requestId = Some Accepted \<and>
         (findById (users st) A \<noteq> None \<longrightarrow>
            befriended (users (snd (acceptFriendRequest st requestId B))) A B) \<and>
         (findById (users st) B \<noteq> None \<longrightarrow>
            befriended (users (snd (acceptFriendRequest st requestId B))) B A) \<and>
         acceptFriendRequest (snd (acceptFriendRequest st requestId B)) requestId B =
           (Finished, snd (acceptFriendRequest st requestId B))"
    using first found again
    by (simp add: statusOf_def befriended_bothAdded_sender befriended_bothAdded_recipient)
  have frame: "(findById (users st) A = Some a \<longrightarrow>
            findById (users (snd (acceptFriendRequest st requestId B))) A =
              Some (a\<lparr> friends := (if B \<in> set (friends a) then friends a else friends a @ [B]) \<rparr>)) \<and>
         (findById (users st) B = Some b \<longrightarrow>
            findById (users (snd (acceptFriendRequest st requestId B))) B =
              Some (b\<lparr> friends := (if A \<in> set (friends b) then friends b else friends b @ [A]) \<rparr>)) \<and>
         (i \<noteq> A \<and> i \<noteq> B \<longrightarrow>
            findById (users (snd (acceptFriendRequest st requestId B))) i = findById (users st) i) \<and>
         map user_id (users (snd (acceptFriendRequest st requestId B))) = map user_id (users st)"
    by (simp add: first bothAdded_sender_doc bothAdded_recipient_doc bothAdded_others bothAdded_ids)
  have reqs: "findRequestById (friendRequests (snd (acceptFriendRequest st requestId B))) requestId =
           Some (fr\<lparr> status := Accepted \<rparr>) \<and>
         (j \<noteq> requestId \<longrightarrow>
            findRequestById (friendRequests (snd (acceptFriendRequest st requestId B))) j =
              findRequestById (friendRequests st) j)"
    using found others by (simp add: first)
  from old frame reqs noop show ?thesis by blast
qed


text \<open>
  User 2 accepts request 7 from user 1: twice in a store where nobody has friends, once in
  a store where both have friends and user 2 lists user 1 already, and once where the
  request is accepted and both list each other.
\<close>

theorem acceptFriendRequest_befriends_witness:
  "findRequestById (friendRequests asked) 7 =
     Some \<lparr> request_id = 7, sender = 1, recipient = 2, status = Pending \<rparr> \<and>
   fst (acceptFriendRequest asked 7 2) = Finished \<and>
   statusOf (snd (acceptFriendRequest asked 7 2)) 7 = Some Accepted \<and>
   befriended (users (snd (acceptFriendRequest asked 7 2))) 1 2 \<and>
   befriended (users (snd (acceptFriendRequest asked 7 2))) 2 1 \<and>
   map friends (users (snd (acceptFriendRequest asked 7 2))) = [[2], [1]] \<and>
   acceptFriendRequest (snd (acceptFriendRequest asked 7 2)) 7 2 =
     (Finished, snd (acceptFriendRequest asked 7 2)) \<and>
   map friends (users acquainted) = [[3], [3, 1], [1, 2]] \<and>
   map friends (users (snd (acceptFriendRequest acquainted 7 2))) = [[3, 2], [3, 1], [1, 2]] \<and>
   findById (users (snd (acceptFriendRequest acquainted 7 2))) 1 =
     Some (sample_user 1 ''a@x.io'' ''h1'' [3, 2]) \<and>
   findById (users (snd (acceptFriendRequest acquainted 7 2))) 2 =
     Some (sample_user 2 ''b@x.io'' ''h2'' [3, 1]) \<and>
   findById (users (snd (acceptFriendRequest acquainted 7 2))) 3 =
     Some (sample_user 3 ''c@x.io'' ''h3'' [1, 2]) \<and>
   findRequestById (friendRequests (snd (acceptFriendRequest acquainted 7 2))) 6 =
     Some \<lparr> request_id = 6, sender = 3, recipient = 1, status = Accepted \<rparr> \<and>
   findRequestById (friendRequests (snd (acceptFriendRequest acquainted 7 2))) 7 =
     Some \<lparr> request_id = 7, sender = 1, recipient = 2, status = Accepted \<rparr> \<and>
   acceptFriendRequest settled 7 2 = (Finished, settled)"
proof -
  have a: "findRequestById (friendRequests asked) 7 =
       Some \<lparr> request_id = 7, sender = 1, recipient = 2, status = Pending \<rparr> \<and>
     fst (acceptFriendRequest asked 7 2) = Finished \<and>
     statusOf (snd (acceptFriendRequest asked 7 2)) 7 = Some Accepted \<and>
     befriended (users (snd (acceptFriendRequest asked 7 2))) 1 2 \<and>
     befriended (users (snd (acceptFriendRequest asked 7 2))) 2 1 \<and>
     map friends (users (snd (acceptFriendRequest asked 7 2))) = [[2], [1]] \<and>
     acceptFriendRequest (snd (acceptFriendRequest asked 7 2)) 7 2 =
       (Finished, snd (acceptFriendRequest asked 7 2))"
    using acceptFriendRequest_befriends[where st = asked and requestId = 7
        and fr = "\<lparr> request_id = 7, sender = 1, recipient = 2, status = Pending \<rparr>"
        and A = 1 and B = 2 and a = "sample_user 1 ''a@x.io'' ''h1'' []"
        and b = "sample_user 2 ''b@x.io'' ''h2'' []" and i = 3 and j = 6]
    by (simp add: asked_def findRequestById_def findById_def sample_user_def
        acceptFriendRequest_def Let_def addFriend_def addToSet_def)
  have q: "findRequestById (friendRequests acquainted) 7 =
       Some \<lparr> request_id = 7, sender = 1, recipient = 2, status = Pending \<rparr>"
    by (simp add: acquainted_def findRequestById_def)
  have u: "findById (users acquainted) 1 = Some (sample_user 1 ''a@x.io'' ''h1'' [3])"
      "findById (users acquainted) 2 = Some (sample_user 2 ''b@x.io'' ''h2'' [3, 1])"
      "findById (users acquainted) 3 = Some (sample_user 3 ''c@x.io'' ''h3'' [1, 2])"
      "findRequestById (friendRequests acquainted) 6 =
         Some \<lparr> request_id = 6, sender = 3, recipient = 1, status = Accepted \<rparr>"
    by (simp_all add: acquainted_def findById_def findRequestById_def sample_user_def)
  have b: "findById (users (snd (acceptFriendRequest acquainted 7 2))) 1 =
       Some (sample_user 1 ''a@x.io'' ''h1'' [3, 2]) \<and>
     findById (users (snd (acceptFriendRequest acquainted 7 2))) 2 =
       Some (sample_user 2 ''b@x.io'' ''h2'' [3, 1]) \<and>
     findById (users (snd (acceptFriendRequest acquainted 7 2))) 3 =
       Some (sample_user 3 ''c@x.io'' ''h3'' [1, 2]) \<and>
     findRequestById (friendRequests (snd (acceptFriendRequest acquainted 7 2))) 6 =
       Some \<lparr> request_id = 6, sender = 3, recipient = 1, status = Accepted \<rparr> \<and>
     findRequestById (friendRequests (snd (acceptFriendRequest acquainted 7 2))) 7 =
       Some \<lparr> request_id = 7, sender = 1, recipient = 2, status = Accepted \<rparr>"
    using acceptFriendRequest_befriends[OF q, where A = 1 and B = 2
        and a = "sample_user 1 ''a@x.io'' ''h1'' [3]"
        and b = "sample_user 2 ''b@x.io'' ''h2'' [3, 1]" and i = 3 and j = 6] u
    by (simp add: sample_user_def)
  have m: "map friends (users acquainted) = [[3], [3, 1], [1, 2]] \<and>
     map friends (users (snd (acceptFriendRequest acquainted 7 2))) = [[3, 2], [3, 1], [1, 2]]"
    by (simp add: acquainted_def findRequestById_def sample_user_def
        acceptFriendRequest_def Let_def addFriend_def addToSet_def)
  have qs: "findRequestById (friendRequests settled) 7 =
       Some \<lparr> request_id = 7, sender = 1, recipient = 2, status = Accepted \<rparr>"
    by (simp add: settled_def findRequestById_def)
  have s: "acceptFriendRequest settled 7 2 = (Finished, settled)"
    using acceptFriendRequest_befriends[OF qs, where A = 1 and B = 2
        and a = "sample_user 1 ''a@x.io'' ''h1'' [2]"
        and b = "sample_user 2 ''b@x.io'' ''h2'' [1]" and i = 3 and j = 6]
    by (simp add: settled_def findById_def sample_user_def)
  from a b m s show ?thesis by simp
qed

section \<open>Login\<close>

text \<open>
  Claim C5. A login with an address that matches no user and a login with the address of a
  user but a password \<open>matchPassword\<close> refuses get the same response, whatever the
  passwords and the times: status 401, the message \<open>Invalid email or password\<close>, no cookie.
\<close>

theorem login_failures_identical:
  assumes "e1 \<noteq> []" "p1 \<noteq> []" "e2 \<noteq> []" "p2 \<noteq> []"
    and "findOneByEmail (users st) (trim (toLowerCase e1)) = None"
    and "findOneByEmail (users st) (trim (toLowerCase e2)) = Some u"
    and "\<not> matchPassword l u p2"
  shows "login l ev st (Some e1) (Some p1) now1 = Response 401 (message ''Invalid email or password'') None \<and>
         login l ev st (Some e2) (Some p2) now2 = login l ev st (Some e1) (Some p1) now1"
  using assms by (simp add: login_def)

text \<open>An unknown address, and the address of user 1 with a wrong password.\<close>

theorem login_failures_identical_witness:
  "findOneByEmail (users strangers) (trim (toLowerCase ''nobody@x.io'')) = None \<and>
   findOneByEmail (users strangers) (trim (toLowerCase '' A@X.io '')) =
     Some (sample_user 1 ''a@x.io'' ''h1'' []) \<and>
   \<not> matchPassword toy (sample_user 1 ''a@x.io'' ''h1'' []) ''wrong'' \<and>
   login toy dev strangers (Some ''nobody@x.io'') (Some ''secret1'') 0 =
     Response 401 (message ''Invalid email or password'') None \<and>
   login toy dev strangers (Some '' A@X.io '') (Some ''wrong'') 5 =
     login toy dev strangers (Some ''nobody@x.io'') (Some ''secret1'') 0"
  using login_failures_identical[of "''nobody@x.io''" "''secret1''" "'' A@X.io ''" "''wrong''"
      strangers "sample_user 1 ''a@x.io'' ''h1'' []" toy dev 0 5]
  by (simp add: sample_normalized sample_unknown findOneByEmail_def strangers_def
      sample_user_def matchPassword_def toy_def)

section \<open>Registration\<close>

lemma emailRegex_nonempty: "regexTest emailRegex s \<Longrightarrow> s \<noteq> []"
  by (auto simp: emailRegex_def)

lemma findOneByEmail_None: "findOneByEmail us e = None \<longleftrightarrow> e \<notin> email ` set us"
  by (auto simp: findOneByEmail_def find_None_iff)

lemma findOneByEmail_SomeD: "findOneByEmail us e = Some u \<Longrightarrow> u \<in> set us \<and> email u = e"
  by (auto simp: findOneByEmail_def find_Some_iff)

lemma User_create_ok:
  assumes "n \<noteq> []" "e \<noteq> []" "6 \<le> length pw" "e \<notin> email ` set us"
  shows "User_create l random us e n pw pic =
           Returns (\<lparr> user_id = newObjectId (map user_id us), fullName = n, email = e,
                      password = bcrypt_hash l pw (bcrypt_genSalt l 10 random), bio = [],
                      profilePic = pic, nativeLanguage = [], learningLanguage = [],
                      location = [], isOnboarded = False, friends = [],
                      passwordResetToken = None, passwordResetExpires = None \<rparr>,
                    us @ [\<lparr> user_id = newObjectId (map user_id us), fullName = n, email = e,
                      password = bcrypt_hash l pw (bcrypt_genSalt l 10 random), bio = [],
                      profilePic = pic, nativeLanguage = [], learningLanguage = [],
                      location = [], isOnboarded = False, friends = [],
                      passwordResetToken = None, passwordResetExpires = None \<rparr>])"
proof -
  from assms(3) have "pw \<noteq> []" by auto
  with assms show ?thesis
    by (simp add: User_create_def validate_def preSave_def Let_def)
qed

lemma signup_creates:
  assumes "e \<noteq> []" "n \<noteq> []" "6 \<le> length pw"
    and "regexTest emailRegex (trim (toLowerCase e))"
    and "findOneByEmail (users st) (trim (toLowerCase e)) = None"
  shows "signup l ev st (Some e) (Some pw) (Some n) draw random now =
           (Replied (Response 201
              (JObj [(''success'', JBool True),
                     (''user'', JObj (user_json (createdUser l st e pw n draw random)))])
              (Some (sessionCookie ev
                 (jwt_sign l (newObjectId (map user_id (users st))) (JWT_SECRET ev) ''7d'' now)))),
            st\<lparr> users := users st @ [createdUser l st e pw n draw random] \<rparr>)"
proof -
  from assms(3) have pw: "pw \<noteq> []" "\<not> length pw < 6" by auto
  have ne: "trim (toLowerCase e) \<noteq> []"
    using assms(4) by (rule emailRegex_nonempty)
  have fresh: "trim (toLowerCase e) \<notin> email ` set (users st)"
    using assms(5) by (simp add: findOneByEmail_None)
  show ?thesis
    using assms(1,2,4,5) pw
    by (simp add: signup_def Let_def User_create_ok[OF assms(2) ne assms(3) fresh] createdUser_def)
qed

lemma signup_taken:
  assumes "e \<noteq> []" "n \<noteq> []" "6 \<le> length pw"
    and "regexTest emailRegex (trim (toLowerCase e))"
    and "findOneByEmail (users st) (trim (toLowerCase e)) \<noteq> None"
  shows "signup l ev st (Some e) (Some pw) (Some n) draw random now =
           (Replied (Response 400 (message ''Email already exists, please use a different one'') None), st)"
proof -
  from assms(3) have pw: "pw \<noteq> []" "\<not> length pw < 6" by auto
  show ?thesis
    using assms(1,2,4,5) pw by (auto simp: signup_def Let_def)
qed

lemma signup_invalid:
  assumes "falsy e0 \<or> falsy p0 \<or> falsy n0 \<or> (\<exists>pw. p0 = Some pw \<and> length pw < 6) \<or>
           (\<exists>e. e0 = Some e \<and> \<not> regexTest emailRegex (trim (toLowerCase e)))"
  shows "replyCode (fst (signup l ev st e0 p0 n0 draw random now)) = Some 400 \<and>
         snd (signup l ev st e0 p0 n0 draw random now) = st"
proof (cases "falsy e0 \<or> falsy p0 \<or> falsy n0")
  case True
  then show ?thesis by (simp add: signup_def replyCode_def)
next
  case False
  then obtain e pw n where v: "e0 = Some e" "p0 = Some pw" "n0 = Some n" "e \<noteq> []" "pw \<noteq> []" "n \<noteq> []"
    by (cases e0; cases p0; cases n0) auto
  with assms have "length pw < 6 \<or> \<not> regexTest emailRegex (trim (toLowerCase e))" by auto
  with v show ?thesis by (auto simp: signup_def replyCode_def Let_def)
qed

lemma signup_201D:
  assumes "replyCode (fst (signup l ev st e0 p0 n0 draw random now)) = Some 201"
  shows "\<exists>e pw n. e0 = Some e \<and> p0 = Some pw \<and> n0 = Some n \<and> e \<noteq> [] \<and> n \<noteq> [] \<and>
           6 \<le> length pw \<and> regexTest emailRegex (trim (toLowerCase e)) \<and>
           findOneByEmail (users st) (trim (toLowerCase e)) = None"
proof -
  have nf: "\<not> (falsy e0 \<or> falsy p0 \<or> falsy n0)"
    using assms by (auto simp: signup_def replyCode_def)
  then obtain e pw n where v: "e0 = Some e" "p0 = Some pw" "n0 = Some n" "e \<noteq> []" "pw \<noteq> []" "n \<noteq> []"
    by (cases e0; cases p0; cases n0) auto
  have 1: "6 \<le> length pw"
    using assms signup_invalid[of e0 p0 n0 l ev st draw random now] v by force
  have 2: "regexTest emailRegex (trim (toLowerCase e))"
    using assms signup_invalid[of e0 p0 n0 l ev st draw random now] v by force
  have 3: "findOneByEmail (users st) (trim (toLowerCase e)) = None"
  proof (rule ccontr)
    assume "findOneByEmail (users st) (trim (toLowerCase e)) \<noteq> None"
    from signup_taken[OF v(4) v(6) 1 2 this, of l ev draw random now] assms v
    show False by (simp add: replyCode_def)
  qed
  from v 1 2 3 show ?thesis by blast
qed

text \<open>
  Claim C6. \<open>signup\<close> answers 400 and writes nothing when a field is missing or empty, the
  password has fewer than 6 characters, or the lowercased and trimmed address fails the
  pattern. With valid fields, the lookup is by the lowercased and trimmed address: when a
  user holds it the answer is 400 with the duplicate-address message and nothing is
  written; otherwise the answer is 201 and one document is appended, whose \<open>email\<close> is the
  lowercased and trimmed address and whose \<open>password\<close> is \<open>bcrypt.hash\<close> of the plaintext
  with a salt of \<open>genSalt(10)\<close>.
\<close>

theorem signup_register:
  "(falsy e0 \<or> falsy p0 \<or> falsy n0 \<or> (\<exists>pw. p0 = Some pw \<and> length pw < 6) \<or>
    (\<exists>e. e0 = Some e \<and> \<not> regexTest emailRegex (trim (toLowerCase e)))
      \<longrightarrow> replyCode (fst (signup l ev st e0 p0 n0 draw random now)) = Some 400 \<and>
          snd (signup l ev st e0 p0 n0 draw random now) = st) \<and>
   (e \<noteq> [] \<and> n \<noteq> [] \<and> 6 \<le> length pw \<and> regexTest emailRegex (trim (toLowerCase e)) \<longrightarrow>
      (findOneByEmail (users st) (trim (toLowerCase e)) \<noteq> None \<longrightarrow>
         signup l ev st (Some e) (Some pw) (Some n) draw random now =
           (Replied (Response 400 (message ''Email already exists, please use a different one'') None), st)) \<and>
      (findOneByEmail (users st) (trim (toLowerCase e)) = None \<longrightarrow>
         replyCode (fst (signup l ev st (Some e) (Some pw) (Some n) draw random now)) = Some 201 \<and>
         users (snd (signup l ev st (Some e) (Some pw) (Some n) draw random now)) =
           users st @ [createdUser l st e pw n draw random] \<and>
         email (createdUser l st e pw n draw random) = trim (toLowerCase e) \<and>
         fullName (createdUser l st e pw n draw random) = n \<and>
         password (createdUser l st e pw n draw random) =
           bcrypt_hash l pw (bcrypt_genSalt l 10 random)))"
proof (intro conjI impI)
  assume "falsy e0 \<or> falsy p0 \<or> falsy n0 \<or> (\<exists>pw. p0 = Some pw \<and> length pw < 6) \<or>
    (\<exists>e. e0 = Some e \<and> \<not> regexTest emailRegex (trim (toLowerCase e)))"
  then show "replyCode (fst (signup l ev st e0 p0 n0 draw random now)) = Some 400"
    and "snd (signup l ev st e0 p0 n0 draw random now) = st"
    using signup_invalid by blast+
next
  assume ok: "e \<noteq> [] \<and> n \<noteq> [] \<and> 6 \<le> length pw \<and> regexTest emailRegex (trim (toLowerCase e))"
    and "findOneByEmail (users st) (trim (toLowerCase e)) \<noteq> None"
  then show "signup l ev st (Some e) (Some pw) (Some n) draw random now =
           (Replied (Response 400 (message ''Email already exists, please use a different one'') None), st)"
    using signup_taken by blast
next
  assume ok: "e \<noteq> [] \<and> n \<noteq> [] \<and> 6 \<le> length pw \<and> regexTest emailRegex (trim (toLowerCase e))"
    and none: "findOneByEmail (users st) (trim (toLowerCase e)) = None"
  have s: "signup l ev st (Some e) (Some pw) (Some n) draw random now =
           (Replied (Response 201
              (JObj [(''success'', JBool True),
                     (''user'', JObj (user_json (createdUser l st e pw n draw random)))])
              (Some (sessionCookie ev
                 (jwt_sign l (newObjectId (map user_id (users st))) (JWT_SECRET ev) ''7d'' now)))),
            st\<lparr> users := users st @ [createdUser l st e pw n draw random] \<rparr>)"
    using signup_creates ok none by blast
  show "replyCode (fst (signup l ev st (Some e) (Some pw) (Some n) draw random now)) = Some 201"
    by (simp add: s replyCode_def)
  show "users (snd (signup l ev st (Some e) (Some pw) (Some n) draw random now)) =
           users st @ [createdUser l st e pw n draw random]"
    by (simp add: s)
next
  show "email (createdUser l st e pw n draw random) = trim (toLowerCase e)"
    by (simp add: createdUser_def)
  show "fullName (createdUser l st e pw n draw random) = n"
    by (simp add: createdUser_def)
  show "password (createdUser l st e pw n draw random) =
           bcrypt_hash l pw (bcrypt_genSalt l 10 random)"
    by (simp add: createdUser_def)
qed

text \<open>
  Five registrations against a store that holds \<open>a@x.io\<close> and \<open>b@x.io\<close>: no address, a short
  password, an address without a dot, a taken address, a new one.
\<close>

theorem signup_register_witness:
  "replyCode (fst (signup toy dev strangers None (Some ''secret1'') (Some ''Cy'') 16 ''salt'' 0)) = Some 400 \<and>
   snd (signup toy dev strangers None (Some ''secret1'') (Some ''Cy'') 16 ''salt'' 0) = strangers \<and>
   replyCode (fst (signup toy dev strangers (Some ''c@x.io'') (Some ''short'') (Some ''Cy'') 16 ''salt'' 0)) = Some 400 \<and>
   replyCode (fst (signup toy dev strangers (Some ''c@x'') (Some ''secret1'') (Some ''Cy'') 16 ''salt'' 0)) = Some 400 \<and>
   signup toy dev strangers (Some '' A@X.io '') (Some ''secret1'') (Some ''Cy'') 16 ''salt'' 0 =
     (Replied (Response 400 (message ''Email already exists, please use a different one'') None), strangers) \<and>
   replyCode (fst (signup toy dev strangers (Some '' C@X.io '') (Some ''secret1'') (Some ''Cy'') 16 ''salt'' 0)) = Some 201 \<and>
   map email (users (snd (signup toy dev strangers (Some '' C@X.io '') (Some ''secret1'') (Some ''Cy'') 16 ''salt'' 0))) =
     [''a@x.io'', ''b@x.io'', ''c@x.io''] \<and>
   map password (users (snd (signup toy dev strangers (Some '' C@X.io '') (Some ''secret1'') (Some ''Cy'') 16 ''salt'' 0))) =
     [''h1'', ''h2'', ''$salt1terces'']"
  using
    signup_register[where ?e0.0 = None and ?p0.0 = "Some ''secret1''" and ?n0.0 = "Some ''Cy''"
      and l = toy and ev = dev and st = strangers and draw = 16 and random = "''salt''" and now = 0
      and e = "'' C@X.io ''" and n = "''Cy''" and pw = "''secret1''"]
    signup_register[where ?e0.0 = "Some ''c@x.io''" and ?p0.0 = "Some ''short''" and ?n0.0 = "Some ''Cy''"
      and l = toy and ev = dev and st = strangers and draw = 16 and random = "''salt''" and now = 0
      and e = "'' A@X.io ''" and n = "''Cy''" and pw = "''secret1''"]
    signup_register[where ?e0.0 = "Some ''c@x''" and ?p0.0 = "Some ''secret1''" and ?n0.0 = "Some ''Cy''"
      and l = toy and ev = dev and st = strangers and draw = 16 and random = "''salt''" and now = 0
      and e = "'' A@X.io ''" and n = "''Cy''" and pw = "''secret1''"]
  by (simp add: sample_fresh sample_normalized sample_no_dot sample_matches
      findOneByEmail_def strangers_def sample_user_def createdUser_def toy_def)

section \<open>What the responses carry\<close>

lemma field_password: "field (JObj (user_json u)) ''password'' = Some (JStr (password u))"
  by (simp add: field_def user_json_def)

lemma selectWithoutPassword_none: "map_of (selectWithoutPassword u) ''password'' = None"
  by (simp add: selectWithoutPassword_def user_json_def opt_field_def split: option.splits)

lemma login_200D:
  assumes "code (login l ev st e0 p0 now) = 200"
  shows "\<exists>u\<in>set (users st). body (login l ev st e0 p0 now) =
            JObj [(''success'', JBool True), (''user'', JObj (user_json u))]"
proof -
  have nf: "\<not> (falsy e0 \<or> falsy p0)"
    using assms by (auto simp: login_def)
  then obtain e pw where v: "e0 = Some e" "p0 = Some pw"
    by (cases e0; cases p0) auto
  show ?thesis
  proof (cases "findOneByEmail (users st) (trim (toLowerCase e))")
    case None
    with assms nf v show ?thesis by (simp add: login_def)
  next
    case (Some u)
    then have "u \<in> set (users st)" using findOneByEmail_SomeD by blast
    with assms nf v Some show ?thesis
      by (auto simp: login_def Let_def split: if_splits)
  qed
qed

text \<open>
  Claim C10. The body of a 201 answer of \<open>signup\<close> has under \<open>user\<close> the stored document,
  whose \<open>password\<close> field is the stored bcrypt hash; the body of a 200 answer of \<open>login\<close> has
  under \<open>user\<close> a stored document with its \<open>password\<close> field; the document \<open>protectRoute\<close>
  attaches has no \<open>password\<close> field.
\<close>

theorem signup_login_expose_hash:
  "(replyCode (fst (signup l ev st e0 (Some pw) n0 draw random now)) = Some 201 \<longrightarrow>
      (\<exists>u r. users (snd (signup l ev st e0 (Some pw) n0 draw random now)) = users st @ [u] \<and>
             password u = bcrypt_hash l pw (bcrypt_genSalt l 10 random) \<and>
             fst (signup l ev st e0 (Some pw) n0 draw random now) = Replied r \<and>
             field (body r) ''user'' = Some (JObj (user_json u)) \<and>
             field (JObj (user_json u)) ''password'' = Some (JStr (password u)))) \<and>
   (code (login l ev st e1 p1 now) = 200 \<longrightarrow>
      (\<exists>u\<in>set (users st).
             field (body (login l ev st e1 p1 now)) ''user'' = Some (JObj (user_json u)) \<and>
             field (JObj (user_json u)) ''password'' = Some (JStr (password u)))) \<and>
   (protectRoute l ev st cookie0 now = Inr doc \<longrightarrow> map_of doc ''password'' = None)"
proof (intro conjI impI)
  assume "replyCode (fst (signup l ev st e0 (Some pw) n0 draw random now)) = Some 201"
  from signup_201D[OF this] obtain e n where v: "e0 = Some e" "n0 = Some n" "e \<noteq> []" "n \<noteq> []"
      "6 \<le> length pw" "regexTest emailRegex (trim (toLowerCase e))"
      "findOneByEmail (users st) (trim (toLowerCase e)) = None"
    by auto
  let ?u = "createdUser l st e pw n draw random"
  have "users (snd (signup l ev st e0 (Some pw) n0 draw random now)) = users st @ [?u] \<and>
        password ?u = bcrypt_hash l pw (bcrypt_genSalt l 10 random) \<and>
        fst (signup l ev st e0 (Some pw) n0 draw random now) =
          Replied (Response 201 (JObj [(''success'', JBool True), (''user'', JObj (user_json ?u))])
            (Some (sessionCookie ev
               (jwt_sign l (newObjectId (map user_id (users st))) (JWT_SECRET ev) ''7d'' now)))) \<and>
        field (body (Response 201 (JObj [(''success'', JBool True), (''user'', JObj (user_json ?u))])
            (Some (sessionCookie ev
               (jwt_sign l (newObjectId (map user_id (users st))) (JWT_SECRET ev) ''7d'' now)))))
          ''user'' = Some (JObj (user_json ?u)) \<and>
        field (JObj (user_json ?u)) ''password'' = Some (JStr (password ?u))"
    using signup_creates[OF v(3,4,5,6,7), of l ev draw random now] v(1,2)
    by (simp add: field_password) (simp add: field_def createdUser_def)
  then show "\<exists>u r. users (snd (signup l ev st e0 (Some pw) n0 draw random now)) = users st @ [u] \<and>
             password u = bcrypt_hash l pw (bcrypt_genSalt l 10 random) \<and>
             fst (signup l ev st e0 (Some pw) n0 draw random now) = Replied r \<and>
             field (body r) ''user'' = Some (JObj (user_json u)) \<and>
             field (JObj (user_json u)) ''password'' = Some (JStr (password u))"
    by blast
next
  assume "code (login l ev st e1 p1 now) = 200"
  from login_200D[OF this] obtain u where "u \<in> set (users st)"
    "body (login l ev st e1 p1 now) = JObj [(''success'', JBool True), (''user'', JObj (user_json u))]"
    by blast
  then show "\<exists>u\<in>set (users st).
             field (body (login l ev st e1 p1 now)) ''user'' = Some (JObj (user_json u)) \<and>
             field (JObj (user_json u)) ''password'' = Some (JStr (password u))"
    by (intro bexI[of _ u]) (simp_all add: field_password, simp add: field_def)
next
  assume "protectRoute l ev st cookie0 now = Inr doc"
  then obtain u where "doc = selectWithoutPassword u"
    by (auto simp: protectRoute_def split: if_splits option.splits completion.splits)
  then show "map_of doc ''password'' = None"
    by (simp add: selectWithoutPassword_none)
qed

text \<open>A registration, a login and a verified session, on sample inputs.\<close>

theorem signup_login_expose_hash_witness:
  "replyCode (fst (signup toy dev strangers (Some '' C@X.io '') (Some ''secret1'') (Some ''Cy'') 16 ''salt'' 0)) = Some 201 \<and>
   field (JObj [(''success'', JBool True),
                (''user'', JObj (user_json (createdUser toy strangers '' C@X.io '' ''secret1'' ''Cy'' 16 ''salt'')))])
      ''user'' = Some (JObj (user_json (createdUser toy strangers '' C@X.io '' ''secret1'' ''Cy'' 16 ''salt''))) \<and>
   field (JObj (user_json (createdUser toy strangers '' C@X.io '' ''secret1'' ''Cy'' 16 ''salt''))) ''password'' =
     Some (JStr ''$salt1terces'') \<and>
   code (login toy dev strangers (Some ''a@x.io'') (Some ''1h'') 0) = 200 \<and>
   field (body (login toy dev strangers (Some ''a@x.io'') (Some ''1h'') 0)) ''user'' =
     Some (JObj (user_json (sample_user 1 ''a@x.io'' ''h1'' []))) \<and>
   field (JObj (user_json (sample_user 1 ''a@x.io'' ''h1'' []))) ''password'' = Some (JStr ''h1'') \<and>
   protectRoute toy dev strangers (Some ''s3cr3ti'') 0 =
     Inr (selectWithoutPassword (sample_user 1 ''a@x.io'' ''h1'' [])) \<and>
   map_of (selectWithoutPassword (sample_user 1 ''a@x.io'' ''h1'' [])) ''password'' = None"
proof -
  have a: "trim (toLowerCase ''a@x.io'') = ''a@x.io''"
    by (simp add: trim_def toLowerCase_def toLowerCaseChar_def isWhiteSpace_def Let_def char_of_def bit_0)
  have s: "replyCode (fst (signup toy dev strangers (Some '' C@X.io '') (Some ''secret1'') (Some ''Cy'') 16 ''salt'' 0)) = Some 201"
    by (subst signup_creates)
       (simp_all add: sample_fresh sample_matches findOneByEmail_def strangers_def sample_user_def replyCode_def)
  have lg: "login toy dev strangers (Some ''a@x.io'') (Some ''1h'') 0 =
      Response 200 (JObj [(''success'', JBool True), (''user'', JObj (user_json (sample_user 1 ''a@x.io'' ''h1'' [])))])
        (Some (sessionCookie dev ''s3cr3ti''))"
    by (simp add: login_def a findOneByEmail_def strangers_def sample_user_def matchPassword_def toy_def dev_def)
  have pr: "protectRoute toy dev strangers (Some ''s3cr3ti'') 0 =
     Inr (selectWithoutPassword (sample_user 1 ''a@x.io'' ''h1'' []))"
    by (simp add: protectRoute_def toy_def dev_def findById_def strangers_def sample_user_def)
  show ?thesis
    using signup_login_expose_hash[of toy dev strangers "Some '' C@X.io ''" "''secret1''" "Some ''Cy''"
        16 "''salt''" 0 "Some ''a@x.io''" "Some ''1h''" "Some ''s3cr3ti''"
        "selectWithoutPassword (sample_user 1 ''a@x.io'' ''h1'' [])"]
      s lg pr
    by (simp add: field_password selectWithoutPassword_none)
       (simp add: field_def createdUser_def toy_def sample_user_def)
qed

section \<open>Verifying a session\<close>

text \<open>
  Claim C7, on the code. \<open>protectRoute\<close> answers 401 when the cookie is missing or empty and
  when the token's user has no document, and attaches a document without \<open>password\<close>
  otherwise; but when \<open>jwt.verify\<close> throws, which is what it does for a token that fails
  verification or is expired, the \<open>catch\<close> answers 500, not 401. The branch that answers
  \<open>401 Unauthorized - Invalid token\<close> needs \<open>jwt.verify\<close> to return a falsy value.
\<close>

theorem protectRoute_outcomes:
  "(falsy cookie0 \<longrightarrow>
      protectRoute l ev st cookie0 now =
        Inl (Response 401 (message ''Unauthorized - No token provided'') None)) \<and>
   (token \<noteq> [] \<and> jwt_verify l token (JWT_SECRET ev) now = Throws \<longrightarrow>
      protectRoute l ev st (Some token) now =
        Inl (Response 500 (message ''Internal Server Error'') None)) \<and>
   (token \<noteq> [] \<and> jwt_verify l token (JWT_SECRET ev) now = Returns (Some userId) \<and>
    findById (users st) userId = None \<longrightarrow>
      protectRoute l ev st (Some token) now =
        Inl (Response 401 (message ''Unauthorized - User not found'') None)) \<and>
   (token \<noteq> [] \<and> jwt_verify l token (JWT_SECRET ev) now = Returns (Some userId) \<and>
    findById (users st) userId = Some u \<longrightarrow>
      protectRoute l ev st (Some token) now = Inr (selectWithoutPassword u) \<and>
      map_of (selectWithoutPassword u) ''password'' = None)"
  by (simp add: protectRoute_def selectWithoutPassword_none)

text \<open>No cookie, a token that fails verification, a token of a user without a document, a valid session.\<close>

theorem protectRoute_outcomes_witness:
  "protectRoute toy dev strangers None 0 =
     Inl (Response 401 (message ''Unauthorized - No token provided'') None) \<and>
   jwt_verify toy ''garbage'' (JWT_SECRET dev) 0 = Throws \<and>
   protectRoute toy dev strangers (Some ''garbage'') 0 =
     Inl (Response 500 (message ''Internal Server Error'') None) \<and>
   jwt_verify toy ''s3cr3tiiiii'' (JWT_SECRET dev) 0 = Returns (Some 5) \<and>
   protectRoute toy dev strangers (Some ''s3cr3tiiiii'') 0 =
     Inl (Response 401 (message ''Unauthorized - User not found'') None) \<and>
   jwt_verify toy ''s3cr3tii'' (JWT_SECRET dev) 0 = Returns (Some 2) \<and>
   protectRoute toy dev strangers (Some ''s3cr3tii'') 0 =
     Inr (selectWithoutPassword (sample_user 2 ''b@x.io'' ''h2'' []))"
  using protectRoute_outcomes[of None toy dev strangers 0 "''garbage''" 5 "sample_user 2 ''b@x.io'' ''h2'' []"]
    protectRoute_outcomes[of None toy dev strangers 0 "''s3cr3tiiiii''" 5 "sample_user 2 ''b@x.io'' ''h2'' []"]
    protectRoute_outcomes[of None toy dev strangers 0 "''s3cr3tii''" 2 "sample_user 2 ''b@x.io'' ''h2'' []"]
  by (simp add: toy_def dev_def findById_def strangers_def sample_user_def)

section \<open>Minting a Stream token\<close>

text \<open>
  Claim C8, on the code. \<open>getStreamToken\<close> is a function of the Stream credentials and the
  user id. When \<open>createToken\<close> throws, \<open>generateStreamToken\<close> swallows the error and
  \<open>getStreamToken\<close> answers 200 with an empty object; it never answers 500.
\<close>

theorem getStreamToken_never_500:
  "(createToken l (STEAM_API_KEY ev) (STEAM_API_SECRET ev) userId = Throws \<longrightarrow>
      getStreamToken l ev userId = Response 200 (JObj []) None) \<and>
   (createToken l (STEAM_API_KEY ev) (STEAM_API_SECRET ev) userId = Returns t \<longrightarrow>
      getStreamToken l ev userId = Response 200 (JObj [(''token'', JStr t)]) None) \<and>
   code (getStreamToken l ev userId) = 200"
  by (simp add: getStreamToken_def generateStreamToken_def opt_field_def split: completion.splits)

text \<open>With no Stream secret configured the stand-in \<open>createToken\<close> throws.\<close>

theorem getStreamToken_never_500_witness:
  "createToken toy (STEAM_API_KEY unconfigured) (STEAM_API_SECRET unconfigured) 1 = Throws \<and>
   getStreamToken toy unconfigured 1 = Response 200 (JObj []) None \<and>
   createToken toy (STEAM_API_KEY dev) (STEAM_API_SECRET dev) 1 = Returns ''streami'' \<and>
   getStreamToken toy dev 1 = Response 200 (JObj [(''token'', JStr ''streami'')]) None"
  using getStreamToken_never_500[of toy unconfigured 1 "''streami''"]
    getStreamToken_never_500[of toy dev 1 "''streami''"]
  by (simp add: toy_def dev_def unconfigured_def)

section \<open>Password reset tokens\<close>




text \<open>The stores along an issue and a reset, as maps over the user list.\<close>

lemma forgotPassword_store:
  assumes "distinct (map user_id (users st))"
    and "findOneByEmail (users st) (trim (toLowerCase e)) = Some u"
  shows "issued l ev st e token delivered t0 =
           st\<lparr> users := map (\<lambda>v. if user_id v = user_id u then withToken l u token t0 else v) (users st) \<rparr>"
  using assms
  by (simp add: issued_def forgotPassword_def Let_def saveUser_def preSave_def withToken_def
      update_as_map)

lemma withToken_simps [simp]:
  "user_id (withToken l u token t0) = user_id u"
  "email (withToken l u token t0) = email u"
  "fullName (withToken l u token t0) = fullName u"
  "password (withToken l u token t0) = password u"
  "passwordResetToken (withToken l u token t0) = Some (sha256_hex l token)"
  "passwordResetExpires (withToken l u token t0) = Some (t0 + 600000)"
  by (simp_all add: withToken_def)

lemma afterReset_simps [simp]:
  "user_id (afterReset l u np random) = user_id u"
  "passwordResetToken (afterReset l u np random) = None"
  "passwordResetExpires (afterReset l u np random) = None"
  by (simp_all add: afterReset_def)














section \<open>The stored password\<close>

lemma map_password_replaced:
  assumes ids: "distinct (map user_id us)" and u: "u \<in> set us" and same: "password d = password u"
  shows "map password (map (\<lambda>w. if user_id w = user_id u then d else w) us) = map password us"
proof -
  have "\<forall>x\<in>set us. password (if user_id x = user_id u then d else x) = password x"
  proof
    fix x assume x: "x \<in> set us"
    show "password (if user_id x = user_id u then d else x) = password x"
    proof (cases "user_id x = user_id u")
      case True
      then have "x = u" using same_id_same_user[OF ids u x] by simp
      with True same show ?thesis by simp
    next
      case False
      then show ?thesis by simp
    qed
  qed
  then show ?thesis by simp
qed

lemma forgotPassword_keeps_passwords:
  assumes "distinct (map user_id (users st))"
  shows "map password (users (snd (forgotPassword l ev st e1 token delivered now))) =
         map password (users st)"
proof (cases e1)
  case None
  then show ?thesis by (simp add: forgotPassword_def)
next
  case (Some e)
  show ?thesis
  proof (cases "findOneByEmail (users st) (trim (toLowerCase e))")
    case None
    with Some show ?thesis by (simp add: forgotPassword_def)
  next
    case found: (Some u)
    have u: "u \<in> set (users st)"
      using found findOneByEmail_SomeD by blast
    have "snd (forgotPassword l ev st e1 token delivered now) =
            st\<lparr> users := map (\<lambda>v. if user_id v = user_id u then withToken l u token now else v) (users st) \<rparr>"
      using forgotPassword_store[OF assms found, of l ev token delivered now] Some
      by (simp add: issued_def)
    then show ?thesis
      using map_password_replaced[OF assms u, of "withToken l u token now"] by simp
  qed
qed

lemma update_keeps_passwords:
  "(\<And>u. password (f u) = password u) \<Longrightarrow>
   map password (findByIdAndUpdate f i us) = map password us"
  by (induction us) simp_all

lemma onboard_keeps_passwords:
  assumes "body_password b = None"
  shows "map password (users (snd (onboard st userId b))) = map password (users st)"
proof -
  have "\<And>u. password (applyBody b u) = password u"
    using assms by (simp add: applyBody_def orKeep_def)
  then have "map password (findByIdAndUpdate (applyBody b) userId (users st)) = map password (users st)"
    by (rule update_keeps_passwords)
  then show ?thesis
    by (simp add: onboard_def split: option.splits)
qed

text \<open>
  \<open>onboard\<close> with a \<open>password\<close> in the body is the one write of that path that passes by
  the hook: \<open>findByIdAndUpdate\<close> stores the body's value as it is.
\<close>

lemma onboard_writes_body_password:
  assumes "fst (onboard st userId b) = Finished" and "body_password b = Some p"
  shows "map_option password (findById (users (snd (onboard st userId b))) userId) = Some p"
proof -
  have id: "\<And>u. user_id (applyBody b u) = user_id u"
    by (simp add: applyBody_def)
  from assms(1) obtain u where u: "findById (users st) userId = Some u"
    and s: "snd (onboard st userId b) = st\<lparr> users := findByIdAndUpdate (applyBody b) userId (users st) \<rparr>"
    by (auto simp: onboard_def split: if_splits option.splits)
  have "password (applyBody b u) = p"
    using assms(2) by (simp add: applyBody_def orKeep_def)
  with u show ?thesis
    by (simp add: s findById_update[of "applyBody b", OF id])
qed

text \<open>
  Claim C9. In a store with distinct ids:
  \<^item> after a 201 answer of \<open>signup\<close> the appended document's \<open>password\<close> is the bcrypt
    hash of the plaintext, so it differs from the plaintext whenever the hash does (bcrypt
    is a parameter here: that a hash differs from its input is its property, not the
    handler's);
  \<^item> the \<open>pre("save")\<close> hook returns the document as it is when \<open>password\<close> is not
    modified, so \<open>save\<close> writes the document with the password it was loaded with, and
    hashes only when the password differs from the loaded one;
  \<^item> \<open>forgotPassword\<close> leaves every stored password as it was;
  \<^item> \<open>onboard\<close> with a body that has no \<open>password\<close> leaves every stored password as it was.
\<close>

theorem password_hash_stable:
  assumes ids: "distinct (map user_id (users st))"
  shows
    "(replyCode (fst (signup l ev st e0 (Some pw) n0 draw random now)) = Some 201 \<and>
      bcrypt_hash l pw (bcrypt_genSalt l 10 random) \<noteq> pw \<longrightarrow>
        (\<exists>u. users (snd (signup l ev st e0 (Some pw) n0 draw random now)) = users st @ [u] \<and>
             password u = bcrypt_hash l pw (bcrypt_genSalt l 10 random) \<and> password u \<noteq> pw)) \<and>
     preSave l random False doc = doc \<and>
     (password doc = password loaded \<and> (v \<longrightarrow> validate doc) \<longrightarrow>
        saveUser l random v loaded doc us =
          Returns (findByIdAndUpdate (\<lambda>_. doc) (user_id doc) us)) \<and>
     (password doc \<noteq> password loaded \<and> (v \<longrightarrow> validate doc) \<longrightarrow>
        saveUser l random v loaded doc us =
          Returns (findByIdAndUpdate
            (\<lambda>_. doc\<lparr> password := bcrypt_hash l (password doc) (bcrypt_genSalt l 10 random) \<rparr>)
            (user_id doc) us)) \<and>
     map password (users (snd (forgotPassword l ev st e1 token delivered now))) =
       map password (users st) \<and>
     (body_password b = None \<longrightarrow>
        map password (users (snd (onboard st userId b))) = map password (users st))"
proof (intro conjI impI)
  assume a: "replyCode (fst (signup l ev st e0 (Some pw) n0 draw random now)) = Some 201 \<and>
      bcrypt_hash l pw (bcrypt_genSalt l 10 random) \<noteq> pw"
  then obtain e n where v: "e0 = Some e" "n0 = Some n" "e \<noteq> []" "n \<noteq> []"
      "6 \<le> length pw" "regexTest emailRegex (trim (toLowerCase e))"
      "findOneByEmail (users st) (trim (toLowerCase e)) = None"
    using signup_201D[of l ev st e0 "Some pw" n0 draw random now] by auto
  let ?u = "createdUser l st e pw n draw random"
  have "users (snd (signup l ev st e0 (Some pw) n0 draw random now)) = users st @ [?u]"
    using signup_creates[OF v(3,4,5,6,7), of l ev draw random now] v(1,2) by simp
  moreover have "password ?u = bcrypt_hash l pw (bcrypt_genSalt l 10 random)"
    by (simp add: createdUser_def)
  ultimately show "\<exists>u. users (snd (signup l ev st e0 (Some pw) n0 draw random now)) = users st @ [u] \<and>
             password u = bcrypt_hash l pw (bcrypt_genSalt l 10 random) \<and> password u \<noteq> pw"
    using a by auto
next
  show "preSave l random False doc = doc"
    by (simp add: preSave_def)
next
  assume "password doc = password loaded \<and> (v \<longrightarrow> validate doc)"
  then show "saveUser l random v loaded doc us =
          Returns (findByIdAndUpdate (\<lambda>_. doc) (user_id doc) us)"
    by (auto simp: saveUser_def preSave_def)
next
  assume "password doc \<noteq> password loaded \<and> (v \<longrightarrow> validate doc)"
  then show "saveUser l random v loaded doc us =
          Returns (findByIdAndUpdate
            (\<lambda>_. doc\<lparr> password := bcrypt_hash l (password doc) (bcrypt_genSalt l 10 random) \<rparr>)
            (user_id doc) us)"
    by (auto simp: saveUser_def preSave_def Let_def)
next
  show "map password (users (snd (forgotPassword l ev st e1 token delivered now))) =
       map password (users st)"
    using ids by (rule forgotPassword_keeps_passwords)
next
  assume "body_password b = None"
  then show "map password (users (snd (onboard st userId b))) = map password (users st)"
    by (rule onboard_keeps_passwords)
qed

text \<open>
  A registration, a token issued to user 1, the onboarding of user 2 and a \<open>save\<close> of user 1
  with a changed password.
\<close>

theorem password_hash_stable_witness:
  "distinct (map user_id (users strangers)) \<and>
   replyCode (fst (signup toy dev strangers (Some '' C@X.io '') (Some ''secret1'') (Some ''Cy'') 16 ''salt'' 0)) = Some 201 \<and>
   bcrypt_hash toy ''secret1'' (bcrypt_genSalt toy 10 ''salt'') = ''$salt1terces'' \<and>
   map password (users (snd (forgotPassword toy dev strangers (Some '' A@X.io '') ''tok'' True 0))) =
     [''h1'', ''h2''] \<and>
   map passwordResetToken (users (snd (forgotPassword toy dev strangers (Some '' A@X.io '') ''tok'' True 0))) =
     [Some ''#tok'', None] \<and>
   fst (onboard strangers 2 profile) = Finished \<and>
   map fullName (users (snd (onboard strangers 2 profile))) = [''Ana'', ''Ana B''] \<and>
   map password (users (snd (onboard strangers 2 profile))) = [''h1'', ''h2''] \<and>
   saveUser toy ''salt'' True (sample_user 1 ''a@x.io'' ''h1'' [])
     ((sample_user 1 ''a@x.io'' ''h1'' [])\<lparr> password := ''changed1'' \<rparr>) (users strangers) =
     Returns (findByIdAndUpdate
       (\<lambda>_. (sample_user 1 ''a@x.io'' ''h1'' [])\<lparr> password := ''$salt1degnahc'' \<rparr>) 1 (users strangers))"
proof -
  have s: "replyCode (fst (signup toy dev strangers (Some '' C@X.io '') (Some ''secret1'') (Some ''Cy'') 16 ''salt'' 0)) = Some 201"
    by (subst signup_creates)
       (simp_all add: sample_fresh sample_matches findOneByEmail_def strangers_def sample_user_def replyCode_def)
  have f: "map passwordResetToken (users (snd (forgotPassword toy dev strangers (Some '' A@X.io '') ''tok'' True 0))) =
     [Some ''#tok'', None]"
    by (simp add: forgotPassword_def sample_normalized findOneByEmail_def strangers_def
        sample_user_def saveUser_def preSave_def toy_def Let_def)
  have ob: "fst (onboard strangers 2 profile) = Finished \<and>
            map fullName (users (snd (onboard strangers 2 profile))) = [''Ana'', ''Ana B'']"
    by (simp add: onboard_def profile_def findById_def strangers_def sample_user_def
        emailTaken_def applyBody_def orKeep_def orKeepOpt_def)
  have d: "distinct (map user_id (users strangers))"
    by (simp add: strangers_def sample_user_def)
  have h: "bcrypt_hash toy ''secret1'' (bcrypt_genSalt toy 10 ''salt'') = ''$salt1terces''"
    by (simp add: toy_def)
  have p: "map password (users strangers) = [''h1'', ''h2'']"
    by (simp add: strangers_def sample_user_def)
  have b: "body_password profile = None"
    by (simp add: profile_def)
  note t = password_hash_stable[OF d, of toy dev "Some '' C@X.io ''" "''secret1''" "Some ''Cy''" 16
        "''salt''" 0 "sample_user 1 ''a@x.io'' ''h1'' []" "sample_user 1 ''a@x.io'' ''h1'' []" False "[]"
        "Some '' A@X.io ''" "''tok''" True profile 2]
  have fp: "map password (users (snd (forgotPassword toy dev strangers (Some '' A@X.io '') ''tok'' True 0))) =
     [''h1'', ''h2'']"
    using t p by simp
  have op: "map password (users (snd (onboard strangers 2 profile))) = [''h1'', ''h2'']"
    using t p b by simp
  note t' = password_hash_stable[OF d, of toy dev "Some '' C@X.io ''" "''secret1''" "Some ''Cy''" 16
        "''salt''" 0 "(sample_user 1 ''a@x.io'' ''h1'' [])\<lparr> password := ''changed1'' \<rparr>"
        "sample_user 1 ''a@x.io'' ''h1'' []" True "users strangers"
        "Some '' A@X.io ''" "''tok''" True profile 2]
  have sv: "saveUser toy ''salt'' True (sample_user 1 ''a@x.io'' ''h1'' [])
              ((sample_user 1 ''a@x.io'' ''h1'' [])\<lparr> password := ''changed1'' \<rparr>) (users strangers) =
            Returns (findByIdAndUpdate
              (\<lambda>_. (sample_user 1 ''a@x.io'' ''h1'' [])\<lparr> password := ''$salt1degnahc'' \<rparr>) 1 (users strangers))"
    using t' by (simp add: sample_user_def validate_def) (simp add: toy_def)
  show ?thesis
    using d s h fp f ob op sv by simp
qed

end
